theory Spec2Isabelle
  imports Main "HOL-Library.AList" "HOL-Library.Char_ord" "HOL-Library.List_Lexorder"
begin

section \<open>JavaScript values, thrown values and calls to caller-supplied functions\<close>

text \<open>
  The module instances of \<^verbatim>\<open>module-instance.js\<close> (src/unnamed/part_001) and the
  Compartment constructor and methods of \<^verbatim>\<open>compartment-shim.js\<close> (src/unnamed/part_002,
  with its older revisions src/unnamed/part_003 and src/packages/ses/src/compartment-shim.js)
  are embedded as functions over explicit state. Closures that share mutable variables
  become records of those variables; a function value is known by its identity (a number),
  which is what \<^verbatim>\<open>===\<close> compares; \<^verbatim>\<open>throw\<close> is the left injection of a sum.

  Numbers are restricted to the integers and NaN (only their truthiness is read), strings
  are lists of 8-bit characters, and an array is the list of its elements.
\<close>

type_synonym fnref = nat

datatype jsval =
    Undefined
  | Null
  | JBool bool
  | JNum int
  | JNaN
  | JStr string
  | JArr "jsval list"
  | JObj nat
  | JFun fnref

text \<open>What a \<^verbatim>\<open>throw\<close> carries: the error classes the sources construct, or any other value.\<close>

datatype error =
    TypeError string
  | ReferenceError string
  | SyntaxError string
  | Error string
  | Thrown jsval

fun typeof :: "jsval \<Rightarrow> string" where
  "typeof Undefined = ''undefined''"
| "typeof Null = ''object''"
| "typeof (JBool b) = ''boolean''"
| "typeof (JNum n) = ''number''"
| "typeof JNaN = ''number''"
| "typeof (JStr s) = ''string''"
| "typeof (JArr vs) = ''object''"
| "typeof (JObj i) = ''object''"
| "typeof (JFun f) = ''function''"

text \<open>ToBoolean, as \<^verbatim>\<open>if (v)\<close>, \<^verbatim>\<open>!v\<close> and \<^verbatim>\<open>v || w\<close> read a value.\<close>

fun truthy :: "jsval \<Rightarrow> bool" where
  "truthy Undefined = False"
| "truthy Null = False"
| "truthy (JBool b) = b"
| "truthy (JNum n) = (n \<noteq> 0)"
| "truthy JNaN = False"
| "truthy (JStr s) = (s \<noteq> [])"
| "truthy (JArr vs) = True"
| "truthy (JObj i) = True"
| "truthy (JFun f) = True"

fun isArray :: "jsval \<Rightarrow> bool" where
  "isArray (JArr vs) = True"
| "isArray v = False"

text \<open>
  An updater is a function the caller hands to a notifier. The model keeps a trace of the
  calls made to such functions, in order, each with its argument. Whether a call returns or
  throws is the callee's business: it is read from a behaviour, which may depend on the
  calls made so far. Updaters that call back into the binding that is notifying them are
  outside the model.
\<close>

type_synonym trace = "(fnref \<times> jsval) list"

type_synonym behaviour = "trace \<Rightarrow> fnref \<Rightarrow> jsval \<Rightarrow> error option"

text \<open>\<^verbatim>\<open>for (const updater of updaters) { updater(v); }\<close>: a throw ends the loop.\<close>

fun call_updaters :: "behaviour \<Rightarrow> fnref list \<Rightarrow> jsval \<Rightarrow> trace \<Rightarrow> error option \<times> trace" where
  "call_updaters beh [] v tr = (None, tr)"
| "call_updaters beh (updater # updaters) v tr =
     (case beh tr updater v of
        Some e \<Rightarrow> (Some e, tr @ [(updater, v)])
      | None \<Rightarrow> call_updaters beh updaters v (tr @ [(updater, v)]))"

section \<open>Third-party module instances\<close>

text \<open>
  \<^verbatim>\<open>makeThirdPartyModuleInstance\<close> (part_001, lines 7-76). The static module record
  supplies \<^verbatim>\<open>exports\<close>, any value, and \<^verbatim>\<open>execute\<close>, a function of the host whose call
  here either returns or throws.
\<close>

record static_module_record =
  exports :: jsval
  record_execute :: "error option"

text \<open>One exported name: the closure variables \<^verbatim>\<open>value\<close> and \<^verbatim>\<open>updaters\<close> (lines 34-35).\<close>

record tp_binding =
  tp_value :: jsval
  tp_updaters :: "fnref list"

text \<open>
  The instance: the bindings by name, in the order the properties were defined on
  \<^verbatim>\<open>proxiedExports\<close>; the variable \<^verbatim>\<open>activated\<close>; whether \<^verbatim>\<open>activate()\<close> of the deferred
  exports has run; and how often the record's \<^verbatim>\<open>execute\<close> was called.
\<close>

record tp_instance =
  tp_bindings :: "(string \<times> tp_binding) list"
  activated :: bool
  exports_active :: bool
  record_execute_calls :: nat

definition exports_type_error :: "string \<Rightarrow> error" where
  "exports_type_error moduleSpecifier =
     TypeError (''SES third-party static module record \"exports\" property must be an array of strings for module '' @ moduleSpecifier)"

fun string_of :: "jsval \<Rightarrow> string" where
  "string_of (JStr s) = s"
| "string_of v = []"

fun elements :: "jsval \<Rightarrow> jsval list" where
  "elements (JArr vs) = vs"
| "elements v = []"

text \<open>
  Lines 33-57, \<^verbatim>\<open>exports.forEach\<close>: each name gets an accessor property that is not
  configurable, so \<^verbatim>\<open>defineProperty\<close> throws a TypeError when a name comes twice. The
  object \<^verbatim>\<open>proxiedExports\<close> starts without properties, so \<^verbatim>\<open>value\<close> starts undefined.
\<close>

fun define_exports :: "string list \<Rightarrow> (string \<times> tp_binding) list \<Rightarrow> error + (string \<times> tp_binding) list" where
  "define_exports [] bs = Inr bs"
| "define_exports (name # names) bs =
     (if name \<in> fst ` set bs then Inl (TypeError (''Cannot redefine property: '' @ name))
      else define_exports names (bs @ [(name, \<lparr>tp_value = Undefined, tp_updaters = []\<rparr>)]))"

definition new_tp_instance :: "(string \<times> tp_binding) list \<Rightarrow> tp_instance" where
  "new_tp_instance bs =
     \<lparr>tp_bindings = bs, activated = False, exports_active = False, record_execute_calls = 0\<rparr>"

definition makeThirdPartyModuleInstance :: "static_module_record \<Rightarrow> string \<Rightarrow> error + tp_instance" where
  "makeThirdPartyModuleInstance staticModuleRecord moduleSpecifier =
     (if truthy (exports staticModuleRecord) then
        (if \<not> isArray (exports staticModuleRecord) \<or>
            list_ex (\<lambda>name. typeof name \<noteq> ''string'') (elements (exports staticModuleRecord))
         then Inl (exports_type_error moduleSpecifier)
         else (case define_exports (map string_of (elements (exports staticModuleRecord))) [] of
                 Inl e \<Rightarrow> Inl e
               | Inr bs \<Rightarrow> Inr (new_tp_instance bs)))
      else Inr (new_tp_instance []))"

text \<open>The instance's \<^verbatim>\<open>execute()\<close> (lines 64-74).\<close>

definition tp_execute :: "static_module_record \<Rightarrow> tp_instance \<Rightarrow> (error + unit) \<times> tp_instance" where
  "tp_execute staticModuleRecord s =
     (if \<not> activated s then
        (let s1 = s\<lparr>exports_active := True\<rparr>;
             s2 = s1\<lparr>activated := True\<rparr>;
             s3 = s2\<lparr>record_execute_calls := record_execute_calls s2 + 1\<rparr>
         in case record_execute staticModuleRecord of
              Some e \<Rightarrow> (Inl e, s3)
            | None \<Rightarrow> (Inr (), s3))
      else (Inr (), s))"

section \<open>Parsed module instances: bindings\<close>

text \<open>
  \<^verbatim>\<open>q\<close> is \<^verbatim>\<open>JSON.stringify\<close> (part_001, line 5), here on strings: the string in double
  quotes, with the quote, the backslash and the control characters escaped.
\<close>

definition hex_digit :: "nat \<Rightarrow> char" where
  "hex_digit n = (if n < 10 then char_of (48 + n) else char_of (87 + n))"

definition json_char :: "char \<Rightarrow> string" where
  "json_char c =
     (if c = CHR 0x22 then [CHR 0x5C, CHR 0x22]
      else if c = CHR 0x5C then [CHR 0x5C, CHR 0x5C]
      else if c = CHR 0x08 then [CHR 0x5C, CHR ''b'']
      else if c = CHR 0x0C then [CHR 0x5C, CHR ''f'']
      else if c = CHR 0x0A then [CHR 0x5C, CHR ''n'']
      else if c = CHR 0x0D then [CHR 0x5C, CHR ''r'']
      else if c = CHR 0x09 then [CHR 0x5C, CHR ''t'']
      else if of_char c < (32 :: nat)
        then [CHR 0x5C, CHR ''u'', CHR ''0'', CHR ''0'',
              hex_digit (of_char c div 16), hex_digit (of_char c mod 16)]
      else [c])"

definition q :: "string \<Rightarrow> string" where
  "q s = CHR 0x22 # concat (map json_char s) @ [CHR 0x22]"

subsection \<open>Fixed bindings (part_001, lines 135-193)\<close>

text \<open>
  The closure variables \<^verbatim>\<open>value\<close>, \<^verbatim>\<open>tdz\<close> and \<^verbatim>\<open>optUpdaters\<close> of one local name, and
  the identity of the frozen function \<^verbatim>\<open>init\<close> that \<^verbatim>\<open>notify\<close> compares its argument
  with. \<^verbatim>\<open>optUpdaters\<close> is an array or null.
\<close>

record fixed_binding =
  localName :: string
  init_ref :: fnref
  fvalue :: jsval
  ftdz :: bool
  optUpdaters :: "fnref list option"

definition new_fixed_binding :: "string \<Rightarrow> fnref \<Rightarrow> fixed_binding" where
  "new_fixed_binding name f =
     \<lparr>localName = name, init_ref = f, fvalue = Undefined, ftdz = True, optUpdaters = Some []\<rparr>"

definition not_yet_initialized :: "string \<Rightarrow> error" where
  "not_yet_initialized name = ReferenceError (''binding '' @ q name @ '' not yet initialized'')"


text \<open>
  \<^verbatim>\<open>init\<close> (lines 154-170). Iterating null, which no call sequence reaches, is the
  engine's TypeError.
\<close>

definition fixed_init ::
  "behaviour \<Rightarrow> jsval \<Rightarrow> fixed_binding \<Rightarrow> trace \<Rightarrow> (error + jsval) \<times> fixed_binding \<times> trace" where
  "fixed_init beh initValue b tr =
     (if \<not> ftdz b
      then (Inl (Error (''Internal: binding '' @ q (localName b) @ '' already initialized'')), b, tr)
      else
        (let b1 = b\<lparr>fvalue := initValue\<rparr>;
             updaters = optUpdaters b1;
             b2 = b1\<lparr>optUpdaters := None\<rparr>;
             b3 = b2\<lparr>ftdz := False\<rparr>
         in case updaters of
              None \<Rightarrow> (Inl (TypeError ''updaters is not iterable''), b3, tr)
            | Some us \<Rightarrow>
                (case call_updaters beh us initValue tr of
                   (Some e, tr') \<Rightarrow> (Inl e, b3, tr')
                 | (None, tr') \<Rightarrow> (Inr initValue, b3, tr'))))"

text \<open>\<^verbatim>\<open>notify\<close> (lines 174-184). A push onto null is the engine's TypeError.\<close>

definition fixed_notify ::
  "behaviour \<Rightarrow> fnref \<Rightarrow> fixed_binding \<Rightarrow> trace \<Rightarrow> (error + unit) \<times> fixed_binding \<times> trace" where
  "fixed_notify beh updater b tr =
     (if updater = init_ref b then (Inr (), b, tr)
      else if ftdz b then
        (case optUpdaters b of
           None \<Rightarrow> (Inl (TypeError ''Cannot read properties of null (reading push)''), b, tr)
         | Some us \<Rightarrow> (Inr (), b\<lparr>optUpdaters := Some (us @ [updater])\<rparr>, tr))
      else
        (case beh tr updater (fvalue b) of
           Some e \<Rightarrow> (Inl e, b, tr @ [(updater, fvalue b)])
         | None \<Rightarrow> (Inr (), b, tr @ [(updater, fvalue b)])))"

subsection \<open>Live bindings (part_001, lines 205-282)\<close>

text \<open>
  The closure variables \<^verbatim>\<open>value\<close>, \<^verbatim>\<open>tdz\<close> and \<^verbatim>\<open>updaters\<close>, the two names the error
  messages quote, and the identity of the frozen function \<^verbatim>\<open>update\<close>.
\<close>

record live_binding =
  liveExportName :: string
  liveLocalName :: string
  update_ref :: fnref
  lvalue :: jsval
  ltdz :: bool
  updaters :: "fnref list"

definition new_live_binding :: "string \<Rightarrow> string \<Rightarrow> fnref \<Rightarrow> live_binding" where
  "new_live_binding exportName name f =
     \<lparr>liveExportName = exportName, liveLocalName = name, update_ref = f,
      lvalue = Undefined, ltdz = True, updaters = []\<rparr>"


text \<open>\<^verbatim>\<open>update\<close> (lines 233-239).\<close>

definition live_update ::
  "behaviour \<Rightarrow> jsval \<Rightarrow> live_binding \<Rightarrow> trace \<Rightarrow> (error + unit) \<times> live_binding \<times> trace" where
  "live_update beh newValue b tr =
     (let b1 = b\<lparr>lvalue := newValue\<rparr>;
          b2 = b1\<lparr>ltdz := False\<rparr>
      in case call_updaters beh (updaters b2) newValue tr of
           (Some e, tr') \<Rightarrow> (Inl e, b2, tr')
         | (None, tr') \<Rightarrow> (Inr (), b2, tr'))"

text \<open>\<^verbatim>\<open>set\<close> (lines 242-252).\<close>

definition live_set ::
  "behaviour \<Rightarrow> jsval \<Rightarrow> live_binding \<Rightarrow> trace \<Rightarrow> (error + unit) \<times> live_binding \<times> trace" where
  "live_set beh newValue b tr =
     (if ltdz b then (Inl (not_yet_initialized (liveLocalName b)), b, tr)
      else
        (let b1 = b\<lparr>lvalue := newValue\<rparr>
         in case call_updaters beh (updaters b1) newValue tr of
              (Some e, tr') \<Rightarrow> (Inl e, b1, tr')
            | (None, tr') \<Rightarrow> (Inr (), b1, tr')))"

text \<open>\<^verbatim>\<open>notify\<close> (lines 256-265).\<close>

definition live_notify ::
  "behaviour \<Rightarrow> fnref \<Rightarrow> live_binding \<Rightarrow> trace \<Rightarrow> (error + unit) \<times> live_binding \<times> trace" where
  "live_notify beh updater b tr =
     (if updater = update_ref b then (Inr (), b, tr)
      else
        (let b1 = b\<lparr>updaters := updaters b @ [updater]\<rparr>
         in if \<not> ltdz b1 then
              (case beh tr updater (lvalue b1) of
                 Some e \<Rightarrow> (Inl e, b1, tr @ [(updater, lvalue b1)])
               | None \<Rightarrow> (Inr (), b1, tr @ [(updater, lvalue b1)]))
            else (Inr (), b1, tr)))"

subsection \<open>The bindings of a third-party instance (part_001, lines 34-56)\<close>



section \<open>Parsed module instances: execute\<close>

text \<open>
  \<^verbatim>\<open>execute\<close> of \<^verbatim>\<open>makeModuleInstance\<close> (part_001, lines 382-412) and the variables it
  closes over: \<^verbatim>\<open>optFunctor\<close>, whatever \<^verbatim>\<open>compartment.evaluate\<close> returned for the functor
  source, then null; \<^verbatim>\<open>didThrow\<close>; \<^verbatim>\<open>thrownError\<close>. \<^verbatim>\<open>functor_calls\<close> lists the functors
  that were called. Calling a function value runs the functor, which returns or throws and
  may change the rest of the world \<open>'w\<close> (the tables of the instance, other instances);
  calling any other truthy value is the engine's TypeError, caught like any throw.
\<close>

record module_instance =
  optFunctor :: jsval
  didThrow :: bool
  thrownError :: error
  functor_calls :: "fnref list"


fun call_functor ::
  "(fnref \<Rightarrow> 'w \<Rightarrow> error option \<times> 'w) \<Rightarrow> jsval \<Rightarrow> module_instance \<Rightarrow> 'w \<Rightarrow>
   error option \<times> module_instance \<times> 'w" where
  "call_functor run (JFun f) s w =
     (case run f w of (r, w') \<Rightarrow> (r, s\<lparr>functor_calls := functor_calls s @ [f]\<rparr>, w'))"
| "call_functor run v s w = (Some (TypeError ''functor is not a function''), s, w)"

definition execute ::
  "(fnref \<Rightarrow> 'w \<Rightarrow> error option \<times> 'w) \<Rightarrow> module_instance \<times> 'w \<Rightarrow>
   (error + unit) \<times> module_instance \<times> 'w" where
  "execute run sw =
     (case sw of (s, w) \<Rightarrow>
        (let (s3, w3) =
           (if truthy (optFunctor s) then
              (let functor = optFunctor s;
                   s1 = s\<lparr>optFunctor := Null\<rparr>
               in case call_functor run functor s1 w of
                    (Some e, s2, w2) \<Rightarrow> (s2\<lparr>didThrow := True, thrownError := e\<rparr>, w2)
                  | (None, s2, w2) \<Rightarrow> (s2, w2))
            else (s, w))
         in if didThrow s3 then (Inl (thrownError s3), s3, w3) else (Inr (), s3, w3)))"

text \<open>Calling \<^verbatim>\<open>execute()\<close> again and again: the state after \<open>n\<close> calls.\<close>

fun execute_times ::
  "(fnref \<Rightarrow> 'w \<Rightarrow> error option \<times> 'w) \<Rightarrow> nat \<Rightarrow> module_instance \<times> 'w \<Rightarrow> module_instance \<times> 'w" where
  "execute_times run 0 sw = sw"
| "execute_times run (Suc n) sw = execute_times run n (snd (execute run sw))"

fun tp_execute_times :: "static_module_record \<Rightarrow> nat \<Rightarrow> tp_instance \<Rightarrow> tp_instance" where
  "tp_execute_times r 0 s = s"
| "tp_execute_times r (Suc n) s = tp_execute_times r n (snd (tp_execute r s))"

section \<open>Parsed module instances: the imports function\<close>

text \<open>
  \<^verbatim>\<open>imports(updateRecord)\<close> of \<^verbatim>\<open>makeModuleInstance\<close> (part_001, lines 308-380), named
  \<open>module_imports\<close> here. Objects made by \<^verbatim>\<open>create(null)\<close> are association lists in
  property order: a new key goes last, a key written again keeps its place.

  A notifier is a function of the exporting instance and is known by its identity. The
  updaters handed to notifiers are the functions the update record supplies and, for each
  forwarded name, the fresh closure \<^verbatim>\<open>update\<close> of line 352. A property descriptor of
  \<^verbatim>\<open>exportsProps\<close> is known by its getter: the \<^verbatim>\<open>get\<close> of a local binding, or the fresh
  getter of lines 355-357.
\<close>

datatype updater = Supplied fnref | ForwardUpdate string

datatype getter = BindingGet string | ForwardedGet string

text \<open>
  What \<^verbatim>\<open>importedInstances.get(specifier)\<close> gives: an instance whose \<^verbatim>\<open>execute()\<close>
  returns or throws here, and the entries of its \<^verbatim>\<open>notifiers\<close> as they are after that call.
\<close>

record imported_instance =
  instance_execute :: "error option"
  instance_notifiers :: "(string \<times> fnref) list"

datatype event = Executed string | Subscribed fnref updater

type_synonym notify_behaviour = "event list \<Rightarrow> fnref \<Rightarrow> updater \<Rightarrow> error option"

text \<open>
  The tables of the instance that \<^verbatim>\<open>imports\<close> reads and writes: \<^verbatim>\<open>notifiers\<close>,
  \<^verbatim>\<open>exportsProps\<close>, the properties of \<^verbatim>\<open>proxiedExports\<close> and whether it is frozen, whether
  \<^verbatim>\<open>activate()\<close> was called, and the calls made to other instances so far.
\<close>

record instance_tables =
  notifiers :: "(string \<times> fnref) list"
  exportsProps :: "(string \<times> getter) list"
  proxiedExports :: "(string \<times> getter) list"
  frozen :: bool
  activate_called :: bool
  events :: "event list"

definition missing_export :: "string \<Rightarrow> string \<Rightarrow> error" where
  "missing_export specifier importName =
     SyntaxError (''The requested module '' @ [CHR 0x27] @ specifier @ [CHR 0x27] @
                  '' does not provide an export named '' @ [CHR 0x27] @ importName @ [CHR 0x27])"

text \<open>Lines 329-331: \<^verbatim>\<open>for (const updater of updaters) importNotify(updater)\<close>.\<close>

fun subscribe_all ::
  "notify_behaviour \<Rightarrow> fnref \<Rightarrow> fnref list \<Rightarrow> event list \<Rightarrow> error option \<times> event list" where
  "subscribe_all nb importNotify [] ev = (None, ev)"
| "subscribe_all nb importNotify (updater # rest) ev =
     (case nb ev importNotify (Supplied updater) of
        Some e \<Rightarrow> (Some e, ev @ [Subscribed importNotify (Supplied updater)])
      | None \<Rightarrow> subscribe_all nb importNotify rest
                  (ev @ [Subscribed importNotify (Supplied updater)]))"

text \<open>Lines 322-332: the import names of one specifier.\<close>

fun import_names ::
  "notify_behaviour \<Rightarrow> string \<Rightarrow> (string \<times> fnref) list \<Rightarrow> (string \<times> fnref list) list \<Rightarrow>
   event list \<Rightarrow> error option \<times> event list" where
  "import_names nb specifier importNotifiers [] ev = (None, ev)"
| "import_names nb specifier importNotifiers ((importName, fs) # rest) ev =
     (case map_of importNotifiers importName of
        None \<Rightarrow> (Some (missing_export specifier importName), ev)
      | Some importNotify \<Rightarrow>
          (case subscribe_all nb importNotify fs ev of
             (Some e, ev') \<Rightarrow> (Some e, ev')
           | (None, ev') \<Rightarrow> import_names nb specifier importNotifiers rest ev'))"

text \<open>
  Lines 335-342: \<^verbatim>\<open>candidateAll\<close> maps a name to a notifier or to \<^verbatim>\<open>false\<close> (here
  \<open>None\<close>); a name that has no property yet reads as undefined.
\<close>

fun add_candidates ::
  "(string \<times> fnref) list \<Rightarrow> (string \<times> fnref option) list \<Rightarrow> (string \<times> fnref option) list" where
  "add_candidates [] candidateAll = candidateAll"
| "add_candidates ((importName, importNotify) # rest) candidateAll =
     add_candidates rest
       (if map_of candidateAll importName = None
        then AList.update importName (Some importNotify) candidateAll
        else AList.update importName None candidateAll)"

text \<open>
  Lines 318-344: the loop over the update record. Reading \<^verbatim>\<open>execute\<close> of an instance
  that the map does not hold is the engine's TypeError.
\<close>

fun import_loop ::
  "notify_behaviour \<Rightarrow> string list \<Rightarrow> (string \<times> imported_instance) list \<Rightarrow>
   (string \<times> (string \<times> fnref list) list) list \<Rightarrow> (string \<times> fnref option) list \<Rightarrow>
   event list \<Rightarrow> (error + (string \<times> fnref option) list) \<times> event list" where
  "import_loop nb exportAlls importedInstances [] candidateAll ev = (Inr candidateAll, ev)"
| "import_loop nb exportAlls importedInstances ((specifier, importUpdaters) # rest) candidateAll ev =
     (case map_of importedInstances specifier of
        None \<Rightarrow> (Inl (TypeError ''Cannot read properties of undefined (reading execute)''), ev)
      | Some instance \<Rightarrow>
          (case instance_execute instance of
             Some e \<Rightarrow> (Inl e, ev @ [Executed specifier])
           | None \<Rightarrow>
               (case import_names nb specifier (instance_notifiers instance) importUpdaters
                       (ev @ [Executed specifier]) of
                  (Some e, ev') \<Rightarrow> (Inl e, ev')
                | (None, ev') \<Rightarrow>
                    import_loop nb exportAlls importedInstances rest
                      (if specifier \<in> set exportAlls
                       then add_candidates (instance_notifiers instance) candidateAll
                       else candidateAll)
                      ev')))"

text \<open>Lines 346-363: the surviving candidates become forwarded exports.\<close>

fun forward_candidates ::
  "notify_behaviour \<Rightarrow> (string \<times> fnref option) list \<Rightarrow> instance_tables \<Rightarrow>
   error option \<times> instance_tables" where
  "forward_candidates nb [] t = (None, t)"
| "forward_candidates nb ((importName, notify) # rest) t =
     (case notify of
        None \<Rightarrow> forward_candidates nb rest t
      | Some n \<Rightarrow>
          if map_of (notifiers t) importName = None then
            (let t1 = t\<lparr>notifiers := AList.update importName n (notifiers t)\<rparr>;
                 t2 = t1\<lparr>events := events t1 @ [Subscribed n (ForwardUpdate importName)]\<rparr>
             in case nb (events t1) n (ForwardUpdate importName) of
                  Some e \<Rightarrow> (Some e, t2)
                | None \<Rightarrow>
                    forward_candidates nb rest
                      (t2\<lparr>exportsProps :=
                            AList.update importName (ForwardedGet importName) (exportsProps t2)\<rparr>))
          else forward_candidates nb rest t)"

text \<open>
  Lines 374-376: \<^verbatim>\<open>defineProperty(proxiedExports, k, exportsProps[k])\<close> for the sorted
  keys. The descriptors are not configurable: defining a property again with another getter,
  or a new property on a frozen object, is a TypeError.
\<close>

fun define_properties ::
  "(string \<times> getter) list \<Rightarrow> bool \<Rightarrow> (string \<times> getter) list \<Rightarrow> error + (string \<times> getter) list" where
  "define_properties [] fr obj = Inr obj"
| "define_properties ((k, g) # props) fr obj =
     (case map_of obj k of
        Some g' \<Rightarrow>
          if g' = g then define_properties props fr obj
          else Inl (TypeError (''Cannot redefine property: '' @ k))
      | None \<Rightarrow>
          if fr then Inl (TypeError (''Cannot define property '' @ k @ '', object is not extensible''))
          else define_properties props fr (obj @ [(k, g)]))"

definition sorted_props :: "(string \<times> getter) list \<Rightarrow> (string \<times> getter) list" where
  "sorted_props props = map (\<lambda>k. (k, the (map_of props k))) (sort (map fst props))"

definition module_imports ::
  "notify_behaviour \<Rightarrow> string list \<Rightarrow> (string \<times> imported_instance) list \<Rightarrow>
   (string \<times> (string \<times> fnref list) list) list \<Rightarrow> instance_tables \<Rightarrow>
   (error + unit) \<times> instance_tables" where
  "module_imports nb exportAlls importedInstances updateRecord t =
     (case import_loop nb exportAlls importedInstances updateRecord [(''default'', None)] (events t) of
        (Inl e, ev) \<Rightarrow> (Inl e, t\<lparr>events := ev\<rparr>)
      | (Inr candidateAll, ev) \<Rightarrow>
          (case forward_candidates nb candidateAll (t\<lparr>events := ev\<rparr>) of
             (Some e, t1) \<Rightarrow> (Inl e, t1)
           | (None, t1) \<Rightarrow>
               (case define_properties (sorted_props (exportsProps t1)) (frozen t1)
                       (proxiedExports t1) of
                  Inl e \<Rightarrow> (Inl e, t1)
                | Inr obj \<Rightarrow>
                    (Inr (), t1\<lparr>proxiedExports := obj, frozen := True, activate_called := True\<rparr>))))"

section \<open>The Compartment constructor\<close>

text \<open>
  \<^verbatim>\<open>Compartment\<close> of \<^verbatim>\<open>makeCompartmentConstructor\<close> (part_002, lines 248-360). The options
  are read after destructuring, with the defaults filled in. Objects are the lists of their
  own properties in property order; the module map argument is such a list, or null
  (\<open>None\<close>), which \<^verbatim>\<open>moduleMap || {}\<close> reads as no entries. The registry \<^verbatim>\<open>moduleAliases\<close> is a WeakMap keyed by exports proxies, here by
  the identity of the proxy object; a key that is no object has no entry.

  Two functions come from files that are not among the sources and are parameters:
  \<^verbatim>\<open>isValidIdentifierName\<close> (scope-constants.js), and in part_002 the quoting function
  \<^verbatim>\<open>q\<close> (\<^verbatim>\<open>assert.quote\<close>; part_003 uses \<^verbatim>\<open>JSON.stringify\<close>, the \<open>q\<close> above). The global
  object is set up by global-object.js and receives the endowments; only the endowments
  are kept here.
\<close>

record compartment_options =
  opt_name :: string
  opt_transforms :: "fnref list"
  opt_shimTransforms :: "fnref list"
  opt_globalLexicals :: "(string \<times> jsval) list"
  opt_resolveHook :: jsval
  opt_importHook :: jsval
  opt_moduleMapHook :: jsval

text \<open>The entry of \<^verbatim>\<open>privateFields\<close> that a successful construction stores (lines 344-359).\<close>

record compartment_fields =
  name :: string
  globalTransforms :: "fnref list"
  globalObject :: "(string \<times> jsval) list"
  globalLexicals :: "(string \<times> jsval) list"
  resolveHook :: jsval
  importHook :: jsval
  moduleMap :: "(string \<times> jsval) list option"
  moduleMapHook :: jsval
  moduleRecords :: "string list"
  shimTransforms :: "fnref list"
  deferredExports :: "string list"
  instances :: "string list"

type_synonym module_alias = "nat \<times> string"

fun aliases_get :: "(nat \<rightharpoonup> module_alias) \<Rightarrow> jsval \<Rightarrow> module_alias option" where
  "aliases_get moduleAliases (JObj i) = moduleAliases i"
| "aliases_get moduleAliases v = None"

text \<open>\<^verbatim>\<open>${q(aliasNamespace)}\<close> is only evaluated for a string.\<close>

definition cannot_map_string :: "(string \<Rightarrow> string) \<Rightarrow> string \<Rightarrow> jsval \<Rightarrow> error" where
  "cannot_map_string quote specifier aliasNamespace =
     TypeError (''Cannot map module '' @ quote specifier @ '' to '' @
                quote (string_of aliasNamespace) @ '' in parent compartment'')"

definition cannot_map_unknown :: "(string \<Rightarrow> string) \<Rightarrow> string \<Rightarrow> error" where
  "cannot_map_unknown quote specifier =
     ReferenceError (''Cannot map module '' @ quote specifier @
                     '' because it has no known compartment in this realm'')"

text \<open>Lines 279-296: the loop over the entries of the module map.\<close>

fun validate_moduleMap ::
  "(string \<Rightarrow> string) \<Rightarrow> (nat \<rightharpoonup> module_alias) \<Rightarrow> (string \<times> jsval) list \<Rightarrow> error option" where
  "validate_moduleMap quote moduleAliases [] = None"
| "validate_moduleMap quote moduleAliases ((specifier, aliasNamespace) # rest) =
     (if typeof aliasNamespace = ''string''
      then Some (cannot_map_string quote specifier aliasNamespace)
      else if aliases_get moduleAliases aliasNamespace = None
      then Some (cannot_map_unknown quote specifier)
      else validate_moduleMap quote moduleAliases rest)"

text \<open>\<^verbatim>\<open>invalidNames.join(', ')\<close>.\<close>

fun join :: "string list \<Rightarrow> string \<Rightarrow> string" where
  "join [] sep = []"
| "join [x] sep = x"
| "join (x # y # ys) sep = x @ sep @ join (y # ys) sep"

definition invalid_names_error :: "string list \<Rightarrow> error" where
  "invalid_names_error invalidNames =
     Error (''Cannot create compartment with invalid names for global lexicals: '' @
            join invalidNames '', '' @ ''; these names would not be lexically mentionable'')"

definition without_new :: error where
  "without_new =
     TypeError (''Class constructor Compartment cannot be invoked without '' @
                [CHR 0x27] @ ''new'' @ [CHR 0x27])"

definition new_fields ::
  "(string \<times> jsval) list \<Rightarrow> (string \<times> jsval) list option \<Rightarrow> compartment_options \<Rightarrow>
   compartment_fields" where
  "new_fields endowments mm options =
     \<lparr>name = opt_name options,
      globalTransforms = opt_transforms options @ opt_shimTransforms options,
      globalObject = endowments,
      globalLexicals = opt_globalLexicals options,
      resolveHook = opt_resolveHook options,
      importHook = opt_importHook options,
      moduleMap = mm,
      moduleMapHook = opt_moduleMapHook options,
      moduleRecords = [],
      shimTransforms = opt_shimTransforms options,
      deferredExports = [],
      instances = []\<rparr>"

definition Compartment ::
  "(string \<Rightarrow> string) \<Rightarrow> (string \<Rightarrow> bool) \<Rightarrow> (nat \<rightharpoonup> module_alias) \<Rightarrow> bool \<Rightarrow>
   (string \<times> jsval) list \<Rightarrow> (string \<times> jsval) list option \<Rightarrow> compartment_options \<Rightarrow>
   error + compartment_fields" where
  "Compartment quote isValidIdentifierName moduleAliases new_target endowments mm options =
     (if \<not> new_target then Inl without_new
      else
        (case validate_moduleMap quote moduleAliases (case mm of None \<Rightarrow> [] | Some m \<Rightarrow> m) of
           Some e \<Rightarrow> Inl e
         | None \<Rightarrow>
             (let invalidNames =
                    filter (\<lambda>identifier. \<not> isValidIdentifierName identifier)
                      (map fst (opt_globalLexicals options))
              in if invalidNames \<noteq> [] then Inl (invalid_names_error invalidNames)
                 else Inr (new_fields endowments mm options))))"

text \<open>
  The constructor of part_003 (lines 237-321): no test of \<^verbatim>\<open>new.target\<close>, no shim
  transforms, \<^verbatim>\<open>entries(moduleMap)\<close> (a TypeError of the engine on null), and
  \<^verbatim>\<open>q = JSON.stringify\<close>.
\<close>

definition Compartment_part_003 ::
  "(string \<Rightarrow> bool) \<Rightarrow> (nat \<rightharpoonup> module_alias) \<Rightarrow>
   (string \<times> jsval) list \<Rightarrow> (string \<times> jsval) list option \<Rightarrow> compartment_options \<Rightarrow>
   error + compartment_fields" where
  "Compartment_part_003 isValidIdentifierName moduleAliases endowments mm options =
     (case mm of
        None \<Rightarrow> Inl (TypeError ''Cannot convert undefined or null to object'')
      | Some m \<Rightarrow>
          (case validate_moduleMap q moduleAliases m of
             Some e \<Rightarrow> Inl e
           | None \<Rightarrow>
               (let invalidNames =
                      filter (\<lambda>identifier. \<not> isValidIdentifierName identifier)
                        (map fst (opt_globalLexicals options))
                in if invalidNames \<noteq> [] then Inl (invalid_names_error invalidNames)
                   else Inr (new_fields endowments mm (options\<lparr>opt_shimTransforms := []\<rparr>)))))"

text \<open>
  The constructor of src/packages/ses/src/compartment-shim.js (lines 90-134), which has no
  module system: the module map is ignored and no hook is stored.
\<close>

definition Compartment_shim ::
  "(string \<Rightarrow> bool) \<Rightarrow> (string \<times> jsval) list \<Rightarrow> compartment_options \<Rightarrow>
   error + compartment_fields" where
  "Compartment_shim isValidIdentifierName endowments options =
     (let invalidNames =
            filter (\<lambda>identifier. \<not> isValidIdentifierName identifier)
              (map fst (opt_globalLexicals options))
      in if invalidNames \<noteq> [] then Inl (invalid_names_error invalidNames)
         else Inr (new_fields endowments None
                     (options\<lparr>opt_shimTransforms := [], opt_resolveHook := Undefined,
                              opt_importHook := Undefined, opt_moduleMapHook := Undefined\<rparr>)))"

section \<open>The module methods of a compartment\<close>

text \<open>
  \<^verbatim>\<open>import\<close>, \<^verbatim>\<open>load\<close> and \<^verbatim>\<open>importNow\<close> of \<^verbatim>\<open>CompartmentPrototype\<close> (part_002, lines
  192-227). A promise is read at its settlement: fulfilled, rejected, or never settled.
  The loader and the linker (module-load.js, module-link.js) are not among the sources and
  are parameters, as is what running an instance's \<^verbatim>\<open>execute()\<close> does to the world \<open>'w\<close>
  of records and instances they share. The callback of \<^verbatim>\<open>then\<close> runs on the world as
  the loader left it.
\<close>

datatype 'a promise = Fulfilled 'a | Rejected error | Pending

record ('w, 'i) module_system =
  module_load :: "'w \<Rightarrow> string \<Rightarrow> unit promise \<times> 'w"
  module_link :: "'w \<Rightarrow> string \<Rightarrow> (error + 'i) \<times> 'w"
  instance_run :: "'w \<Rightarrow> 'i \<Rightarrow> (error + unit) \<times> 'w"
  exportsProxy :: "'i \<Rightarrow> jsval"

record namespace_box =
  namespace :: jsval

text \<open>\<^verbatim>\<open>assertModuleHooks\<close> (part_002, lines 52-59).\<close>

definition assertModuleHooks :: "compartment_fields \<Rightarrow> error option" where
  "assertModuleHooks compartmentFields =
     (if typeof (importHook compartmentFields) \<noteq> ''function'' \<or> typeof (resolveHook compartmentFields) \<noteq> ''function''
      then Some (TypeError ''Compartment must be constructed with an importHook and a resolveHook for it to be able to load modules'')
      else None)"

text \<open>An \<^verbatim>\<open>async\<close> method: a throw of the body is a rejected promise.\<close>

definition async :: "(error + 'a promise) \<times> 'w \<Rightarrow> 'a promise \<times> 'w" where
  "async r = (case r of (Inl e, w) \<Rightarrow> (Rejected e, w) | (Inr p, w) \<Rightarrow> (p, w))"

text \<open>\<^verbatim>\<open>promise.then(callback)\<close>.\<close>

definition promise_then ::
  "'a promise \<times> 'w \<Rightarrow> ('a \<Rightarrow> 'w \<Rightarrow> (error + 'b) \<times> 'w) \<Rightarrow> 'b promise \<times> 'w" where
  "promise_then pw callback =
     (case pw of
        (Fulfilled v, w) \<Rightarrow>
          (case callback v w of
             (Inl e, w') \<Rightarrow> (Rejected e, w')
           | (Inr x, w') \<Rightarrow> (Fulfilled x, w'))
      | (Rejected e, w) \<Rightarrow> (Rejected e, w)
      | (Pending, w) \<Rightarrow> (Pending, w))"

text \<open>\<^verbatim>\<open>importNow\<close> (lines 217-227).\<close>

definition compartment_importNow ::
  "('w, 'i) module_system \<Rightarrow> compartment_fields \<Rightarrow> 'w \<Rightarrow> jsval \<Rightarrow> (error + jsval) \<times> 'w" where
  "compartment_importNow sys compartmentFields w specifier =
     (if typeof specifier \<noteq> ''string''
      then (Inl (TypeError ''first argument of importNow() must be a string''), w)
      else
        (case assertModuleHooks compartmentFields of
           Some e \<Rightarrow> (Inl e, w)
         | None \<Rightarrow>
             (case module_link sys w (string_of specifier) of
                (Inl e, w1) \<Rightarrow> (Inl e, w1)
              | (Inr moduleInstance, w1) \<Rightarrow>
                  (case instance_run sys w1 moduleInstance of
                     (Inl e, w2) \<Rightarrow> (Inl e, w2)
                   | (Inr u, w2) \<Rightarrow> (Inr (exportsProxy sys moduleInstance), w2)))))"

text \<open>\<^verbatim>\<open>load\<close> (lines 207-215).\<close>

definition compartment_load ::
  "('w, 'i) module_system \<Rightarrow> compartment_fields \<Rightarrow> 'w \<Rightarrow> jsval \<Rightarrow> unit promise \<times> 'w" where
  "compartment_load sys compartmentFields w specifier =
     async
       (if typeof specifier \<noteq> ''string''
        then (Inl (TypeError ''first argument of load() must be a string''), w)
        else
          (case assertModuleHooks compartmentFields of
             Some e \<Rightarrow> (Inl e, w)
           | None \<Rightarrow> (case module_load sys w (string_of specifier) of (p, w1) \<Rightarrow> (Inr p, w1))))"

text \<open>\<^verbatim>\<open>import\<close> (lines 192-205).\<close>

definition compartment_import ::
  "('w, 'i) module_system \<Rightarrow> compartment_fields \<Rightarrow> 'w \<Rightarrow> jsval \<Rightarrow> namespace_box promise \<times> 'w" where
  "compartment_import sys compartmentFields w specifier =
     async
       (if typeof specifier \<noteq> ''string''
        then (Inl (TypeError ''first argument of import() must be a string''), w)
        else
          (case assertModuleHooks compartmentFields of
             Some e \<Rightarrow> (Inl e, w)
           | None \<Rightarrow>
               (case promise_then (module_load sys w (string_of specifier))
                       (\<lambda>u w'. case compartment_importNow sys compartmentFields w' specifier of
                                 (Inl e, w'') \<Rightarrow> (Inl e, w'')
                               | (Inr ns, w'') \<Rightarrow> (Inr \<lparr>namespace = ns\<rparr>, w'')) of
                  (p, w1) \<Rightarrow> (Inr p, w1))))"

text \<open>
  The specification's words for \<^verbatim>\<open>import\<close>: \<^verbatim>\<open>load\<close>, then \<^verbatim>\<open>importNow\<close>, the namespace
  in a box. The promise settles as \<^verbatim>\<open>load(S)\<close> does when that does not fulfil; when it
  does, it settles as the call \<^verbatim>\<open>importNow(S)\<close> made next completes.
\<close>

definition load_then_importNow ::
  "('w, 'i) module_system \<Rightarrow> compartment_fields \<Rightarrow> 'w \<Rightarrow> string \<Rightarrow> namespace_box promise \<times> 'w" where
  "load_then_importNow sys compartmentFields w S =
     (case compartment_load sys compartmentFields w (JStr S) of
        (Fulfilled u, w1) \<Rightarrow>
          (case compartment_importNow sys compartmentFields w1 (JStr S) of
             (Inr proxy, w2) \<Rightarrow> (Fulfilled \<lparr>namespace = proxy\<rparr>, w2)
           | (Inl e, w2) \<Rightarrow> (Rejected e, w2))
      | (Rejected e, w1) \<Rightarrow> (Rejected e, w1)
      | (Pending, w1) \<Rightarrow> (Pending, w1))"

section \<open>Sequences of calls on one binding\<close>

text \<open>
  The calls a binding can receive, and a run of them in order. A call that throws leaves
  the binding as the throw found it, and the next call goes on from there.
\<close>

datatype fixed_op = FNotify fnref | FInit jsval

datatype live_op = LNotify fnref | LUpdate jsval | LSet jsval

fun fixed_run :: "behaviour \<Rightarrow> fixed_op list \<Rightarrow> fixed_binding \<Rightarrow> trace \<Rightarrow> fixed_binding \<times> trace" where
  "fixed_run beh [] b tr = (b, tr)"
| "fixed_run beh (FNotify u # ops) b tr =
     (case fixed_notify beh u b tr of (r, b', tr') \<Rightarrow> fixed_run beh ops b' tr')"
| "fixed_run beh (FInit v # ops) b tr =
     (case fixed_init beh v b tr of (r, b', tr') \<Rightarrow> fixed_run beh ops b' tr')"

fun live_run :: "behaviour \<Rightarrow> live_op list \<Rightarrow> live_binding \<Rightarrow> trace \<Rightarrow> live_binding \<times> trace" where
  "live_run beh [] b tr = (b, tr)"
| "live_run beh (LNotify u # ops) b tr =
     (case live_notify beh u b tr of (r, b', tr') \<Rightarrow> live_run beh ops b' tr')"
| "live_run beh (LUpdate v # ops) b tr =
     (case live_update beh v b tr of (r, b', tr') \<Rightarrow> live_run beh ops b' tr')"
| "live_run beh (LSet v # ops) b tr =
     (case live_set beh v b tr of (r, b', tr') \<Rightarrow> live_run beh ops b' tr')"

text \<open>What the validation of lines 25-28 accepts.\<close>

definition array_of_strings :: "jsval \<Rightarrow> bool" where
  "array_of_strings v = (isArray v \<and> list_all (\<lambda>x. typeof x = ''string'') (elements v))"

text \<open>
  The updaters a fixed binding holds, and what it means that a binding never holds and
  never calls its own \<^verbatim>\<open>init\<close> or \<^verbatim>\<open>update\<close>.
\<close>

definition queued :: "fixed_binding \<Rightarrow> fnref list" where
  "queued b = (case optUpdaters b of None \<Rightarrow> [] | Some us \<Rightarrow> us)"

definition live_own_ok :: "live_binding \<Rightarrow> trace \<Rightarrow> bool" where
  "live_own_ok b tr = (update_ref b \<notin> set (updaters b) \<and> update_ref b \<notin> fst ` set tr)"

definition fixed_own_ok :: "fixed_binding \<Rightarrow> trace \<Rightarrow> bool" where
  "fixed_own_ok b tr = (init_ref b \<notin> set (queued b) \<and> init_ref b \<notin> fst ` set tr)"

text \<open>
  A module map value that passes both tests of the constructor's loop: it is no string and
  the registry has an entry for it.
\<close>

definition recognized :: "(nat \<rightharpoonup> module_alias) \<Rightarrow> jsval \<Rightarrow> bool" where
  "recognized moduleAliases v =
     (typeof v \<noteq> ''string'' \<and> aliases_get moduleAliases v \<noteq> None)"

text \<open>The names of \<^verbatim>\<open>globalLexicals\<close> that the filter of lines 298-300 keeps.\<close>

definition invalid_names :: "(string \<Rightarrow> bool) \<Rightarrow> compartment_options \<Rightarrow> string list" where
  "invalid_names isValidIdentifierName options =
     filter (\<lambda>identifier. \<not> isValidIdentifierName identifier) (map fst (opt_globalLexicals options))"


section \<open>Properties of the bindings\<close>

subsection \<open>The loop over the updaters\<close>


lemma call_updaters_trace:
  "\<exists>n\<le>length us. snd (call_updaters beh us v tr) = tr @ map (\<lambda>u. (u, v)) (take n us)"
proof (induction us arbitrary: tr)
  case Nil
  then show ?case by simp
next
  case (Cons u us)
  show ?case
  proof (cases "beh tr u v")
    case None
    from Cons.IH [of "tr @ [(u, v)]"] obtain n where
      n: "n \<le> length us"
      "snd (call_updaters beh us v (tr @ [(u, v)])) = (tr @ [(u, v)]) @ map (\<lambda>u. (u, v)) (take n us)"
      by blast
    show ?thesis
      by (rule exI [of _ "Suc n"]) (use None n in simp)
  next
    case (Some e)
    show ?thesis
      by (rule exI [of _ "Suc 0"]) (use Some in simp)
  qed
qed

lemma call_updaters_callees:
  "fst ` set (snd (call_updaters beh us v tr)) \<subseteq> fst ` set tr \<union> set us"
proof -
  obtain n where "snd (call_updaters beh us v tr) = tr @ map (\<lambda>u. (u, v)) (take n us)"
    using call_updaters_trace by blast
  then show ?thesis
    by (auto dest: in_set_takeD)
qed


lemma live_notify_own:
  assumes "live_own_ok b tr" "live_notify beh u b tr = (r, b', tr')"
  shows "update_ref b' = update_ref b \<and> live_own_ok b' tr'"
  using assms
  by (fastforce simp: live_own_ok_def live_notify_def Let_def image_iff split: if_splits option.splits)

lemma live_update_own:
  assumes "live_own_ok b tr" "live_update beh v b tr = (r, b', tr')"
  shows "update_ref b' = update_ref b \<and> live_own_ok b' tr'"
proof -
  obtain r0 tr0 where c: "call_updaters beh (updaters b) v tr = (r0, tr0)"
    by (cases "call_updaters beh (updaters b) v tr")
  with call_updaters_callees [of beh "updaters b" v tr]
  have sub: "fst ` set tr0 \<subseteq> fst ` set tr \<union> set (updaters b)" by simp
  from assms(2) c have "b' = b\<lparr>lvalue := v, ltdz := False\<rparr>" "tr' = tr0"
    by (auto simp: live_update_def Let_def split: option.splits)
  with assms(1) sub show ?thesis
    unfolding live_own_ok_def by auto
qed

lemma live_set_own:
  assumes "live_own_ok b tr" "live_set beh v b tr = (r, b', tr')"
  shows "update_ref b' = update_ref b \<and> live_own_ok b' tr'"
proof (cases "ltdz b")
  case True
  with assms show ?thesis by (simp add: live_set_def)
next
  case False
  obtain r0 tr0 where c: "call_updaters beh (updaters b) v tr = (r0, tr0)"
    by (cases "call_updaters beh (updaters b) v tr")
  with call_updaters_callees [of beh "updaters b" v tr]
  have sub: "fst ` set tr0 \<subseteq> fst ` set tr \<union> set (updaters b)" by simp
  from assms(2) c False have "b' = b\<lparr>lvalue := v\<rparr>" "tr' = tr0"
    by (auto simp: live_set_def Let_def split: option.splits)
  with assms(1) sub show ?thesis
    unfolding live_own_ok_def by auto
qed

lemma live_run_own:
  "live_own_ok b tr \<Longrightarrow>
   update_ref (fst (live_run beh ops b tr)) = update_ref b \<and>
   live_own_ok (fst (live_run beh ops b tr)) (snd (live_run beh ops b tr))"
proof (induction ops arbitrary: b tr)
  case Nil
  then show ?case by simp
next
  case (Cons op ops)
  show ?case
  proof (cases op)
    case (LNotify u)
    obtain r b' tr' where s: "live_notify beh u b tr = (r, b', tr')"
      by (cases "live_notify beh u b tr")
    from live_notify_own [OF Cons.prems s] Cons.IH [of b' tr'] show ?thesis
      using LNotify s by simp
  next
    case (LUpdate v)
    obtain r b' tr' where s: "live_update beh v b tr = (r, b', tr')"
      by (cases "live_update beh v b tr")
    from live_update_own [OF Cons.prems s] Cons.IH [of b' tr'] show ?thesis
      using LUpdate s by simp
  next
    case (LSet v)
    obtain r b' tr' where s: "live_set beh v b tr = (r, b', tr')"
      by (cases "live_set beh v b tr")
    from live_set_own [OF Cons.prems s] Cons.IH [of b' tr'] show ?thesis
      using LSet s by simp
  qed
qed

lemma fixed_notify_own:
  assumes "fixed_own_ok b tr" "fixed_notify beh u b tr = (r, b', tr')"
  shows "init_ref b' = init_ref b \<and> fixed_own_ok b' tr'"
  using assms
  by (fastforce simp: fixed_own_ok_def fixed_notify_def queued_def Let_def image_iff
        split: if_splits option.splits)

lemma fixed_init_own:
  assumes "fixed_own_ok b tr" "fixed_init beh v b tr = (r, b', tr')"
  shows "init_ref b' = init_ref b \<and> fixed_own_ok b' tr'"
proof (cases "ftdz b \<and> optUpdaters b \<noteq> None")
  case False
  with assms show ?thesis
    by (fastforce simp: fixed_init_def fixed_own_ok_def queued_def Let_def image_iff split: if_splits)
next
  case True
  then obtain us where us: "optUpdaters b = Some us" by auto
  obtain r0 tr0 where c: "call_updaters beh us v tr = (r0, tr0)"
    by (cases "call_updaters beh us v tr")
  with call_updaters_callees [of beh us v tr]
  have sub: "fst ` set tr0 \<subseteq> fst ` set tr \<union> set us" by simp
  from assms(2) c True us have "b' = b\<lparr>fvalue := v, optUpdaters := None, ftdz := False\<rparr>" "tr' = tr0"
    by (auto simp: fixed_init_def Let_def split: option.splits)
  with assms(1) sub us show ?thesis
    unfolding fixed_own_ok_def queued_def by auto
qed

lemma fixed_run_own:
  "fixed_own_ok b tr \<Longrightarrow>
   init_ref (fst (fixed_run beh ops b tr)) = init_ref b \<and>
   fixed_own_ok (fst (fixed_run beh ops b tr)) (snd (fixed_run beh ops b tr))"
proof (induction ops arbitrary: b tr)
  case Nil
  then show ?case by simp
next
  case (Cons op ops)
  show ?case
  proof (cases op)
    case (FNotify u)
    obtain r b' tr' where s: "fixed_notify beh u b tr = (r, b', tr')"
      by (cases "fixed_notify beh u b tr")
    from fixed_notify_own [OF Cons.prems s] Cons.IH [of b' tr'] show ?thesis
      using FNotify s by simp
  next
    case (FInit v)
    obtain r b' tr' where s: "fixed_init beh v b tr = (r, b', tr')"
      by (cases "fixed_init beh v b tr")
    from fixed_init_own [OF Cons.prems s] Cons.IH [of b' tr'] show ?thesis
      using FInit s by simp
  qed
qed

text \<open>
  Two facts on the states a fixed binding can reach: in the temporal dead zone the queue
  \<^verbatim>\<open>optUpdaters\<close> is an array, and \<^verbatim>\<open>init\<close> on an initialized binding is the internal
  error of line 158, which changes nothing.
\<close>

lemma fixed_step_queue:
  "(ftdz b \<longrightarrow> optUpdaters b \<noteq> None) \<Longrightarrow>
   (ftdz (fst (snd (fixed_notify beh u b tr))) \<longrightarrow> optUpdaters (fst (snd (fixed_notify beh u b tr))) \<noteq> None) \<and>
   (ftdz (fst (snd (fixed_init beh v b tr))) \<longrightarrow> optUpdaters (fst (snd (fixed_init beh v b tr))) \<noteq> None)"
  by (auto simp: fixed_notify_def fixed_init_def Let_def split: option.splits prod.splits)

lemma fixed_run_queue:
  "(ftdz b \<longrightarrow> optUpdaters b \<noteq> None) \<Longrightarrow>
   ftdz (fst (fixed_run beh ops b tr)) \<longrightarrow> optUpdaters (fst (fixed_run beh ops b tr)) \<noteq> None"
proof (induction ops arbitrary: b tr)
  case Nil
  then show ?case by simp
next
  case (Cons op ops)
  show ?case
  proof (cases op)
    case (FNotify u)
    obtain r b' tr' where s: "fixed_notify beh u b tr = (r, b', tr')"
      by (cases "fixed_notify beh u b tr")
    with fixed_step_queue [OF Cons.prems, of beh u tr] have "ftdz b' \<longrightarrow> optUpdaters b' \<noteq> None"
      by simp
    from Cons.IH [OF this, of tr'] show ?thesis using FNotify s by simp
  next
    case (FInit v)
    obtain r b' tr' where s: "fixed_init beh v b tr = (r, b', tr')"
      by (cases "fixed_init beh v b tr")
    with fixed_step_queue [OF Cons.prems, of beh _ tr v] have "ftdz b' \<longrightarrow> optUpdaters b' \<noteq> None"
      by simp
    from Cons.IH [OF this, of tr'] show ?thesis using FInit s by simp
  qed
qed

lemma fixed_init_twice:
  "\<not> ftdz b \<Longrightarrow>
   fixed_init beh v b tr =
     (Inl (Error (''Internal: binding '' @ q (localName b) @ '' already initialized'')), b, tr)"
  by (simp add: fixed_init_def)

text \<open>
  Claim C10. Passing a binding's own \<^verbatim>\<open>init\<close> function (fixed binding) or own
  \<^verbatim>\<open>update\<close> function (live binding) to its \<^verbatim>\<open>notify\<close> is a no-op: \<^verbatim>\<open>notify\<close> returns
  without queuing or calling it, whatever the state of the binding. Hence, whatever calls a
  binding made by \<^verbatim>\<open>makeModuleInstance\<close> receives, in whatever order, its own function is
  never among the updaters it holds and is never called by it: a cycle of re-exports cannot
  make a binding notify itself.
\<close>

theorem notify_own_sink_is_noop:
  "fixed_notify beh (init_ref fb) fb tr = (Inr (), fb, tr)
   \<and> live_notify beh (update_ref lb) lb tr = (Inr (), lb, tr)
   \<and> f \<notin> set (queued (fst (fixed_run beh fops (new_fixed_binding nm f) [])))
   \<and> f \<notin> fst ` set (snd (fixed_run beh fops (new_fixed_binding nm f) []))
   \<and> f \<notin> set (updaters (fst (live_run beh lops (new_live_binding en nm f) [])))
   \<and> f \<notin> fst ` set (snd (live_run beh lops (new_live_binding en nm f) []))"
proof -
  have fr: "init_ref (new_fixed_binding nm f) = f"
    by (simp add: new_fixed_binding_def)
  have lr: "update_ref (new_live_binding en nm f) = f"
    by (simp add: new_live_binding_def)
  have "fixed_own_ok (new_fixed_binding nm f) []"
    by (simp add: fixed_own_ok_def new_fixed_binding_def queued_def)
  from fixed_run_own [OF this, of beh fops]
  have 1: "f \<notin> set (queued (fst (fixed_run beh fops (new_fixed_binding nm f) [])))"
       "f \<notin> fst ` set (snd (fixed_run beh fops (new_fixed_binding nm f) []))"
    using fr by (auto simp: fixed_own_ok_def)
  have "live_own_ok (new_live_binding en nm f) []"
    by (simp add: live_own_ok_def new_live_binding_def)
  from live_run_own [OF this, of beh lops]
  have 2: "f \<notin> set (updaters (fst (live_run beh lops (new_live_binding en nm f) [])))"
       "f \<notin> fst ` set (snd (live_run beh lops (new_live_binding en nm f) []))"
    using lr by (auto simp: live_own_ok_def)
  show ?thesis
    using 1 2 by (simp add: fixed_notify_def live_notify_def)
qed




subsection \<open>Registration and notification order\<close>










section \<open>Properties of execute\<close>

text \<open>
  A parsed instance: once \<^verbatim>\<open>execute()\<close> has been called the functor is consumed, so any
  number of calls runs it at most once; a call made while the functor is running (a cycle)
  returns at once; and what the functor threw is thrown again by every later call.
\<close>

lemma execute_idle:
  "\<not> truthy (optFunctor s) \<Longrightarrow>
   execute run (s, w) = (if didThrow s then Inl (thrownError s) else Inr (), s, w)"
  by (simp add: execute_def)

lemma execute_consumes_functor:
  "\<not> truthy (optFunctor (fst (snd (execute run sw))))"
proof (cases sw)
  case (Pair s w)
  show ?thesis
  proof (cases "truthy (optFunctor s)")
    case False
    with Pair show ?thesis by (simp add: execute_def)
  next
    case True
    then show ?thesis
      unfolding Pair
      by (cases "optFunctor s"; cases "run (case optFunctor s of JFun f \<Rightarrow> f | _ \<Rightarrow> 0) w")
         (auto simp: execute_def Let_def split: option.splits prod.splits)
  qed
qed

lemma execute_calls_at_most_one:
  "functor_calls (fst (snd (execute run sw))) = functor_calls (fst sw) \<or>
   (\<exists>f. optFunctor (fst sw) = JFun f \<and>
        functor_calls (fst (snd (execute run sw))) = functor_calls (fst sw) @ [f])"
proof (cases sw)
  case (Pair s w)
  show ?thesis
    unfolding Pair
    by (cases "optFunctor s")
       (auto simp: execute_def Let_def split: option.splits prod.splits)
qed

lemma execute_idle_calls:
  "\<not> truthy (optFunctor (fst sw)) \<Longrightarrow>
   functor_calls (fst (execute_times run n sw)) = functor_calls (fst sw) \<and>
   \<not> truthy (optFunctor (fst (execute_times run n sw)))"
proof (induction n arbitrary: sw)
  case 0
  then show ?case by simp
next
  case (Suc n)
  obtain s w where sw: "sw = (s, w)" by (cases sw)
  with Suc.prems have "snd (execute run sw) = (s, w)"
    by (simp add: execute_idle)
  with Suc.IH [of "(s, w)"] Suc.prems sw show ?case by simp
qed

lemma execute_at_most_once:
  "length (functor_calls (fst (execute_times run n sw))) \<le> length (functor_calls (fst sw)) + 1"
proof (cases n)
  case 0
  then show ?thesis by simp
next
  case (Suc m)
  let ?sw1 = "snd (execute run sw)"
  have idle: "\<not> truthy (optFunctor (fst ?sw1))"
    by (rule execute_consumes_functor)
  from execute_idle_calls [OF idle, of run m]
  have "functor_calls (fst (execute_times run n sw)) = functor_calls (fst ?sw1)"
    using Suc by simp
  with execute_calls_at_most_one [of run sw] show ?thesis by auto
qed

lemma execute_again:
  assumes "fst (execute run sw) = Inl e"
  shows "execute run (snd (execute run sw)) = (Inl e, snd (execute run sw))"
proof -
  obtain s1 w1 where sw1: "snd (execute run sw) = (s1, w1)" by (cases "snd (execute run sw)")
  have idle: "\<not> truthy (optFunctor s1)"
    using execute_consumes_functor [of run sw] sw1 by simp
  obtain s w where sw: "sw = (s, w)" by (cases sw)
  from assms sw sw1 have "didThrow s1 \<and> thrownError s1 = e"
    by (auto simp: execute_def Let_def split: if_splits prod.splits option.splits)
  with idle sw1 show ?thesis by (simp add: execute_idle)
qed

lemma execute_sticky:
  assumes "fst (execute run sw) = Inl e"
  shows "fst (execute run (execute_times run n (snd (execute run sw)))) = Inl e"
proof -
  have same: "execute_times run n (snd (execute run sw)) = snd (execute run sw)" for n
  proof (induction n)
    case 0
    then show ?case by simp
  next
    case (Suc n)
    then show ?case using execute_again [OF assms] by simp
  qed
  show ?thesis using execute_again [OF assms] by (simp add: same)
qed

lemma execute_in_progress:
  "optFunctor s = Null \<Longrightarrow> \<not> didThrow s \<Longrightarrow> execute run (s, w) = (Inr (), s, w)"
  by (simp add: execute_def)

lemma execute_rethrows:
  "optFunctor s = JFun f \<Longrightarrow> run f w = (Some e, w') \<Longrightarrow> fst (execute run (s, w)) = Inl e"
  by (simp add: execute_def)

text \<open>A third-party instance calls the record's \<^verbatim>\<open>execute\<close> at most once as well.\<close>

lemma tp_execute_at_most_once:
  "record_execute_calls (tp_execute_times r n s) \<le> record_execute_calls s + 1"
proof -
  have idle: "activated s \<Longrightarrow> tp_execute_times r n s = s" for n s
    by (induction n) (simp_all add: tp_execute_def)
  show ?thesis
  proof (cases n)
    case 0
    then show ?thesis by simp
  next
    case (Suc m)
    have "activated (snd (tp_execute r s))"
      by (simp add: tp_execute_def Let_def split: option.splits)
    from idle [OF this, of m] Suc show ?thesis
      by (simp add: tp_execute_def Let_def split: option.splits)
  qed
qed

lemma tp_execute_forgets_throw:
  "\<not> activated s \<Longrightarrow> record_execute r = Some e \<Longrightarrow>
   fst (tp_execute r s) = Inl e \<and> fst (tp_execute r (snd (tp_execute r s))) = Inr ()"
  by (simp add: tp_execute_def)

text \<open>
  Claim C1 on the code. The part of the claim on parsed instances holds (lemmas
  \<open>execute_at_most_once\<close> and \<open>execute_sticky\<close>), and so does at most one call for
  third-party instances (\<open>tp_execute_at_most_once\<close>). But a third-party instance keeps no
  record of a throw: when the record's \<^verbatim>\<open>execute\<close> throws, the first \<^verbatim>\<open>execute()\<close> of the
  instance throws that error and the second returns normally.
\<close>

theorem third_party_execute_not_sticky:
  "fst (tp_execute \<lparr>exports = Undefined, record_execute = Some (Error ''boom'')\<rparr> (new_tp_instance []))
     = Inl (Error ''boom'') \<and>
   fst (tp_execute \<lparr>exports = Undefined, record_execute = Some (Error ''boom'')\<rparr>
         (snd (tp_execute \<lparr>exports = Undefined, record_execute = Some (Error ''boom'')\<rparr> (new_tp_instance []))))
     = Inr ()"
  by (simp add: tp_execute_def new_tp_instance_def)

section \<open>Properties of third-party instances\<close>

lemma list_ex_not_all: "list_ex (\<lambda>x. P x \<noteq> c) xs = (\<not> list_all (\<lambda>x. P x = c) xs)"
  by (induction xs) auto

text \<open>
  Claim C9, as amended. When a third-party module instance is made from a static module
  record whose \<^verbatim>\<open>exports\<close> is truthy and not an array of strings,
  \<^verbatim>\<open>makeThirdPartyModuleInstance\<close> throws a TypeError whose message ends with the module
  specifier. A falsy \<^verbatim>\<open>exports\<close> (absent, undefined, null, false, 0, NaN or the empty
  string) is not validated: the instance is made, without exports.
\<close>

theorem third_party_exports_validation:
  "(truthy (exports r) \<and> \<not> array_of_strings (exports r) \<longrightarrow>
      makeThirdPartyModuleInstance r moduleSpecifier =
        Inl (TypeError (''SES third-party static module record \"exports\" property must be an array of strings for module '' @ moduleSpecifier)))
   \<and> (\<not> truthy (exports r) \<longrightarrow>
      makeThirdPartyModuleInstance r moduleSpecifier = Inr (new_tp_instance []))"
  by (auto simp: makeThirdPartyModuleInstance_def array_of_strings_def exports_type_error_def
        list_ex_not_all)

theorem third_party_exports_validation_witness:
  "truthy (JArr [JStr ''a'', JNum 1]) \<and> \<not> array_of_strings (JArr [JStr ''a'', JNum 1]) \<and>
   makeThirdPartyModuleInstance \<lparr>exports = JArr [JStr ''a'', JNum 1], record_execute = None\<rparr> ''./m.js'' =
     Inl (TypeError ''SES third-party static module record \"exports\" property must be an array of strings for module ./m.js'')
   \<and> \<not> truthy Null \<and>
   makeThirdPartyModuleInstance \<lparr>exports = Null, record_execute = None\<rparr> ''./m.js'' = Inr (new_tp_instance [])"
  using third_party_exports_validation [of "\<lparr>exports = JArr [JStr ''a'', JNum 1], record_execute = None\<rparr>" "''./m.js''"]
    third_party_exports_validation [of "\<lparr>exports = Null, record_execute = None\<rparr>" "''./m.js''"]
  by (simp add: array_of_strings_def)

text \<open>
  Claim C9 as stated fails for a record whose \<^verbatim>\<open>exports\<close> is null: it is not an array of
  strings, and the instance is made without any error.
\<close>

theorem third_party_exports_null_counterexample:
  "\<not> array_of_strings Null \<and>
   makeThirdPartyModuleInstance \<lparr>exports = Null, record_execute = None\<rparr> ''./m.js'' =
     Inr \<lparr>tp_bindings = [], activated = False, exports_active = False, record_execute_calls = 0\<rparr>"
  by (simp add: makeThirdPartyModuleInstance_def array_of_strings_def new_tp_instance_def)

section \<open>Properties of the imports function\<close>

subsection \<open>Candidates of export *\<close>

lemma add_candidates_keeps_false:
  "map_of c n = Some None \<Longrightarrow> map_of (add_candidates ns c) n = Some None"
proof (induction ns arbitrary: c)
  case Nil
  then show ?case by simp
next
  case (Cons p ns)
  obtain k v where p: "p = (k, v)" by (cases p)
  show ?case
    unfolding p add_candidates.simps
    by (rule Cons.IH) (use Cons.prems in \<open>auto simp: update_conv'\<close>)
qed

lemma add_candidates_keeps_dom:
  "map_of c n \<noteq> None \<Longrightarrow> map_of (add_candidates ns c) n \<noteq> None"
proof (induction ns arbitrary: c)
  case Nil
  then show ?case by simp
next
  case (Cons p ns)
  obtain k v where p: "p = (k, v)" by (cases p)
  show ?case
    unfolding p add_candidates.simps
    by (rule Cons.IH) (use Cons.prems in \<open>auto simp: update_conv'\<close>)
qed

lemma add_candidates_adds:
  "n \<in> fst ` set ns \<Longrightarrow> map_of (add_candidates ns c) n \<noteq> None"
proof (induction ns arbitrary: c)
  case Nil
  then show ?case by simp
next
  case (Cons p ns)
  obtain k v where p: "p = (k, v)" by (cases p)
  show ?case
  proof (cases "k = n")
    case True
    show ?thesis
      unfolding p add_candidates.simps
      by (rule add_candidates_keeps_dom) (use True in \<open>auto simp: update_conv'\<close>)
  next
    case False
    with Cons.prems p have "n \<in> fst ` set ns" by auto
    then show ?thesis
      unfolding p add_candidates.simps by (rule Cons.IH)
  qed
qed

lemma add_candidates_marks:
  "n \<in> fst ` set ns \<Longrightarrow> map_of c n \<noteq> None \<Longrightarrow> map_of (add_candidates ns c) n = Some None"
proof (induction ns arbitrary: c)
  case Nil
  then show ?case by simp
next
  case (Cons p ns)
  obtain k v where p: "p = (k, v)" by (cases p)
  show ?case
  proof (cases "k = n")
    case True
    show ?thesis
      unfolding p add_candidates.simps
      by (rule add_candidates_keeps_false) (use True Cons.prems in \<open>auto simp: update_conv'\<close>)
  next
    case False
    with Cons.prems p have "n \<in> fst ` set ns" by auto
    moreover have "map_of (if map_of c k = None then AList.update k (Some v) c
                           else AList.update k None c) n \<noteq> None"
      using False Cons.prems(2) by (auto simp: update_conv')
    ultimately show ?thesis
      unfolding p add_candidates.simps by (rule Cons.IH)
  qed
qed

lemma add_candidates_distinct:
  "distinct (map fst c) \<Longrightarrow> distinct (map fst (add_candidates ns c))"
proof (induction ns arbitrary: c)
  case Nil
  then show ?case by simp
next
  case (Cons p ns)
  obtain k v where p: "p = (k, v)" by (cases p)
  show ?case
    unfolding p add_candidates.simps
    by (rule Cons.IH) (use Cons.prems in \<open>auto simp: distinct_update\<close>)
qed

text \<open>One step of the loop over the update record, when it goes through.\<close>

lemma import_loop_step:
  assumes "import_loop nb ea ii ((s, ups) # ur) c ev = (Inr c', ev')"
  obtains i ev1 where "map_of ii s = Some i" "instance_execute i = None"
    "import_loop nb ea ii ur
       (if s \<in> set ea then add_candidates (instance_notifiers i) c else c) ev1 = (Inr c', ev')"
  using assms
  by (auto split: option.splits prod.splits)

lemma import_loop_keeps:
  assumes "import_loop nb ea ii ur c ev = (Inr c', ev')"
  shows "(map_of c n = Some None \<longrightarrow> map_of c' n = Some None)
       \<and> (map_of c n \<noteq> None \<longrightarrow> map_of c' n \<noteq> None)
       \<and> (distinct (map fst c) \<longrightarrow> distinct (map fst c'))"
  using assms
proof (induction ur arbitrary: c ev)
  case Nil
  then show ?case by simp
next
  case (Cons p ur)
  obtain s ups where p: "p = (s, ups)" by (cases p)
  from Cons.prems [unfolded p] obtain i ev1 where
    i: "map_of ii s = Some i" "instance_execute i = None" and
    rest: "import_loop nb ea ii ur
       (if s \<in> set ea then add_candidates (instance_notifiers i) c else c) ev1 = (Inr c', ev')"
    by (rule import_loop_step)
  let ?c = "if s \<in> set ea then add_candidates (instance_notifiers i) c else c"
  have "map_of c n = Some None \<Longrightarrow> map_of ?c n = Some None"
    "map_of c n \<noteq> None \<Longrightarrow> map_of ?c n \<noteq> None"
    "distinct (map fst c) \<Longrightarrow> distinct (map fst ?c)"
    using add_candidates_keeps_false [of c n] add_candidates_keeps_dom [of c n]
      add_candidates_distinct [of c]
    by (cases "s \<in> set ea"; simp)+
  with Cons.IH [OF rest] show ?case by blast
qed

lemma import_loop_adds:
  assumes "import_loop nb ea ii ur c ev = (Inr c', ev')"
    and "(s, ups) \<in> set ur" "s \<in> set ea" "map_of ii s = Some i"
    and "n \<in> fst ` set (instance_notifiers i)"
  shows "map_of c' n \<noteq> None \<and> (map_of c n \<noteq> None \<longrightarrow> map_of c' n = Some None)"
  using assms(1,2)
proof (induction ur arbitrary: c ev)
  case Nil
  then show ?case by simp
next
  case (Cons p ur)
  obtain s' ups' where p: "p = (s', ups')" by (cases p)
  from Cons.prems(1) [unfolded p] obtain i' ev1 where
    i': "map_of ii s' = Some i'" and ex': "instance_execute i' = None" and
    rest: "import_loop nb ea ii ur
       (if s' \<in> set ea then add_candidates (instance_notifiers i') c else c) ev1 = (Inr c', ev')"
    by (rule import_loop_step)
  let ?c = "if s' \<in> set ea then add_candidates (instance_notifiers i') c else c"
  show ?case
  proof (cases "(s, ups) \<in> set ur")
    case True
    have "map_of c n \<noteq> None \<Longrightarrow> map_of ?c n \<noteq> None"
      using add_candidates_keeps_dom [of c n] by (cases "s' \<in> set ea"; simp)
    with Cons.IH [OF rest True] show ?thesis by blast
  next
    case False
    with Cons.prems(2) p have eq: "s' = s" "ups' = ups" by auto
    with i' assms(4) have "i' = i" by simp
    with eq assms(3,5) have c1: "map_of ?c n \<noteq> None"
      and c2: "map_of c n \<noteq> None \<Longrightarrow> map_of ?c n = Some None"
      using add_candidates_adds [of n "instance_notifiers i" c]
        add_candidates_marks [of n "instance_notifiers i" c]
      by simp_all
    from import_loop_keeps [OF rest, of n] c1 c2 show ?thesis by auto
  qed
qed

lemma import_loop_ambiguous:
  assumes "import_loop nb ea ii ur c ev = (Inr c', ev')"
    and "(s1, ups1) \<in> set ur" "(s2, ups2) \<in> set ur" "s1 \<noteq> s2"
    and "s1 \<in> set ea" "s2 \<in> set ea"
    and "map_of ii s1 = Some i1" "map_of ii s2 = Some i2"
    and "n \<in> fst ` set (instance_notifiers i1)" "n \<in> fst ` set (instance_notifiers i2)"
  shows "map_of c' n = Some None"
  using assms(1,2,3)
proof (induction ur arbitrary: c ev)
  case Nil
  then show ?case by simp
next
  case (Cons p ur)
  obtain s ups where p: "p = (s, ups)" by (cases p)
  from Cons.prems(1) [unfolded p] obtain i ev1 where
    i: "map_of ii s = Some i" and ex: "instance_execute i = None" and
    rest: "import_loop nb ea ii ur
       (if s \<in> set ea then add_candidates (instance_notifiers i) c else c) ev1 = (Inr c', ev')"
    by (rule import_loop_step)
  let ?c = "if s \<in> set ea then add_candidates (instance_notifiers i) c else c"
  consider (both) "(s1, ups1) \<in> set ur" "(s2, ups2) \<in> set ur"
    | (first) "s = s1" "(s2, ups2) \<in> set ur"
    | (second) "s = s2" "(s1, ups1) \<in> set ur"
    using Cons.prems(2,3) p assms(4) by auto
  then show ?case
  proof cases
    case both
    from Cons.IH [OF rest both] show ?thesis .
  next
    case first
    with i assms(5,7,9) have "map_of ?c n \<noteq> None"
      using add_candidates_adds [of n "instance_notifiers i1" c] by simp
    with import_loop_adds [OF rest first(2) assms(6,8,10)] show ?thesis by simp
  next
    case second
    with i assms(6,8,10) have "map_of ?c n \<noteq> None"
      using add_candidates_adds [of n "instance_notifiers i2" c] by simp
    with import_loop_adds [OF rest second(2) assms(5,7,9)] show ?thesis by simp
  qed
qed

text \<open>Only names that are candidates with a notifier are forwarded.\<close>

lemma forward_candidates_frame:
  "\<forall>x. (n, Some x) \<notin> set c \<Longrightarrow>
   map_of (notifiers (snd (forward_candidates nb c t))) n = map_of (notifiers t) n \<and>
   map_of (exportsProps (snd (forward_candidates nb c t))) n = map_of (exportsProps t) n \<and>
   proxiedExports (snd (forward_candidates nb c t)) = proxiedExports t \<and>
   frozen (snd (forward_candidates nb c t)) = frozen t"
proof (induction c arbitrary: t)
  case Nil
  then show ?case by simp
next
  case (Cons p c)
  obtain k v where p: "p = (k, v)" by (cases p)
  from Cons.prems have rest: "\<forall>x. (n, Some x) \<notin> set c" by auto
  show ?case
  proof (cases v)
    case None
    with Cons.IH [OF rest] p show ?thesis by simp
  next
    case (Some x)
    with Cons.prems p have kn: "k \<noteq> n" by auto
    show ?thesis
      using Cons.IH [OF rest] p Some kn
      by (auto simp: Let_def update_conv' split: option.splits)
  qed
qed

lemma not_candidate:
  "distinct (map fst c) \<Longrightarrow> map_of c n = Some None \<Longrightarrow> (n, Some x) \<notin> set c"
  using map_of_eq_Some_iff [of c n "Some x"] by auto

lemma define_properties_keys:
  "define_properties props fr obj = Inr obj' \<Longrightarrow>
   fst ` set obj' \<subseteq> fst ` set obj \<union> fst ` set props"
proof (induction props arbitrary: obj)
  case Nil
  then show ?case by simp
next
  case (Cons p props)
  obtain k g where p: "p = (k, g)" by (cases p)
  show ?case
  proof (cases "map_of obj k")
    case None
    with Cons.prems p have fr: "\<not> fr" and r: "define_properties props fr (obj @ [(k, g)]) = Inr obj'"
      by (auto split: if_splits)
    from Cons.IH [OF r] p show ?thesis by auto
  next
    case (Some g')
    with Cons.prems p have r: "define_properties props fr obj = Inr obj'"
      by (auto split: if_splits)
    from Cons.IH [OF r] p show ?thesis by auto
  qed
qed

lemma sorted_props_keys: "fst ` set (sorted_props props) = fst ` set props"
  by (force simp: sorted_props_def image_iff)


lemma module_imports_frame:
  assumes "\<And>c' ev'. import_loop nb ea ii ur [(''default'', None)] (events t) = (Inr c', ev') \<Longrightarrow>
             \<forall>x. (n, Some x) \<notin> set c'"
  shows "map_of (notifiers (snd (module_imports nb ea ii ur t))) n = map_of (notifiers t) n \<and>
         map_of (exportsProps (snd (module_imports nb ea ii ur t))) n = map_of (exportsProps t) n \<and>
         (n \<notin> fst ` set (exportsProps t) \<and> n \<notin> fst ` set (proxiedExports t) \<longrightarrow>
            n \<notin> fst ` set (proxiedExports (snd (module_imports nb ea ii ur t))))"
proof -
  obtain r ev where loop: "import_loop nb ea ii ur [(''default'', None)] (events t) = (r, ev)"
    by (cases "import_loop nb ea ii ur [(''default'', None)] (events t)")
  show ?thesis
  proof (cases r)
    case (Inl e)
    with loop show ?thesis by (simp add: module_imports_def)
  next
    case (Inr c')
    let ?t0 = "t\<lparr>events := ev\<rparr>"
    obtain r1 t1 where fwd: "forward_candidates nb c' ?t0 = (r1, t1)"
      by (cases "forward_candidates nb c' ?t0")
    from assms [of c' ev] loop Inr have "\<forall>x. (n, Some x) \<notin> set c'" by simp
    from forward_candidates_frame [OF this, of nb ?t0] fwd
    have t1: "map_of (notifiers t1) n = map_of (notifiers t) n"
      "map_of (exportsProps t1) n = map_of (exportsProps t) n"
      "proxiedExports t1 = proxiedExports t"
      by simp_all
    show ?thesis
    proof (cases r1)
      case (Some e)
      with loop Inr fwd t1 show ?thesis by (simp add: module_imports_def)
    next
      case None
      show ?thesis
      proof (cases "define_properties (sorted_props (exportsProps t1)) (frozen t1) (proxiedExports t1)")
        case (Inl e)
        with loop Inr fwd None t1 show ?thesis by (simp add: module_imports_def)
      next
        case (Inr obj)
        from define_properties_keys [OF Inr] t1(3)
        have "fst ` set obj \<subseteq> fst ` set (proxiedExports t) \<union> fst ` set (exportsProps t1)"
          by (simp add: sorted_props_keys)
        moreover have "n \<notin> fst ` set (exportsProps t) \<Longrightarrow> n \<notin> fst ` set (exportsProps t1)"
          using t1(2) by (simp add: map_of_eq_None_iff [symmetric])
        ultimately have "n \<notin> fst ` set (exportsProps t) \<and> n \<notin> fst ` set (proxiedExports t) \<longrightarrow>
            n \<notin> fst ` set obj"
          by blast
        with loop \<open>r = Inr c'\<close> fwd None Inr t1 show ?thesis
          by (simp add: module_imports_def)
      qed
    qed
  qed
qed

text \<open>
  Claim C2. In the imports step of a parsed instance, let two different specifiers of the
  update record both be listed in \<^verbatim>\<open>reexports\<close> and let the instances they stand for both
  have a notifier for a name that the module does not define itself (the name is in none of
  the instance's tables before the call). Then the name is in none of \<^verbatim>\<open>notifiers\<close>,
  \<^verbatim>\<open>exportsProps\<close> and the properties of \<^verbatim>\<open>proxiedExports\<close> after the call, whether the call
  returns or throws. And \<^verbatim>\<open>default\<close> is never forwarded: what \<^verbatim>\<open>notifiers\<close> and
  \<^verbatim>\<open>exportsProps\<close> hold for it is what they held before the call.
\<close>

theorem export_star_ambiguity:
  "((s1, ups1) \<in> set updateRecord \<and> (s2, ups2) \<in> set updateRecord \<and> s1 \<noteq> s2 \<and>
    s1 \<in> set exportAlls \<and> s2 \<in> set exportAlls \<and>
    map_of importedInstances s1 = Some i1 \<and> map_of importedInstances s2 = Some i2 \<and>
    n \<in> fst ` set (instance_notifiers i1) \<and> n \<in> fst ` set (instance_notifiers i2) \<and>
    n \<notin> fst ` set (notifiers t) \<and> n \<notin> fst ` set (exportsProps t) \<and>
    n \<notin> fst ` set (proxiedExports t)
    \<longrightarrow>
    n \<notin> fst ` set (notifiers (snd (module_imports nb exportAlls importedInstances updateRecord t))) \<and>
    n \<notin> fst ` set (exportsProps (snd (module_imports nb exportAlls importedInstances updateRecord t))) \<and>
    n \<notin> fst ` set (proxiedExports (snd (module_imports nb exportAlls importedInstances updateRecord t))))
   \<and> map_of (notifiers (snd (module_imports nb exportAlls importedInstances updateRecord t))) ''default'' =
       map_of (notifiers t) ''default''
   \<and> map_of (exportsProps (snd (module_imports nb exportAlls importedInstances updateRecord t))) ''default'' =
       map_of (exportsProps t) ''default''"
proof -
  let ?c0 = "[(''default'', None :: fnref option)]"
  have dflt: "\<forall>x. (''default'', Some x) \<notin> set c'"
    if "import_loop nb exportAlls importedInstances updateRecord ?c0 (events t) = (Inr c', ev')"
    for c' ev'
  proof -
    from import_loop_keeps [OF that, of "''default''"]
    have "map_of c' ''default'' = Some None" "distinct (map fst c')" by simp_all
    then show ?thesis by (simp add: not_candidate)
  qed
  have amb: "\<forall>x. (n, Some x) \<notin> set c'"
    if "import_loop nb exportAlls importedInstances updateRecord ?c0 (events t) = (Inr c', ev')"
      and "(s1, ups1) \<in> set updateRecord" "(s2, ups2) \<in> set updateRecord" "s1 \<noteq> s2"
      "s1 \<in> set exportAlls" "s2 \<in> set exportAlls"
      "map_of importedInstances s1 = Some i1" "map_of importedInstances s2 = Some i2"
      "n \<in> fst ` set (instance_notifiers i1)" "n \<in> fst ` set (instance_notifiers i2)"
    for c' ev'
  proof -
    from import_loop_keeps [OF that(1), of "''default''"] have "distinct (map fst c')" by simp
    moreover from import_loop_ambiguous [OF that] have "map_of c' n = Some None" .
    ultimately show ?thesis by (simp add: not_candidate)
  qed
  show ?thesis
    using module_imports_frame [of nb exportAlls importedInstances updateRecord t "''default''", OF dflt]
      module_imports_frame [of nb exportAlls importedInstances updateRecord t n, OF amb]
    by (auto simp: map_of_eq_None_iff [symmetric])
qed

theorem export_star_ambiguity_witness:
  "''y'' \<notin> fst ` set (notifiers (snd (module_imports (\<lambda>ev n u. None) [''./a.js'', ''./b.js'']
      [(''./a.js'', \<lparr>instance_execute = None,
                      instance_notifiers = [(''x'', 10), (''y'', 11), (''default'', 12)]\<rparr>),
       (''./b.js'', \<lparr>instance_execute = None, instance_notifiers = [(''y'', 20), (''z'', 21)]\<rparr>)]
      [(''./a.js'', [(''x'', [100])]), (''./b.js'', [])]
      \<lparr>notifiers = [(''own'', 1), (''*'', 3)], exportsProps = [(''own'', BindingGet ''own'')],
       proxiedExports = [], frozen = False, activate_called = False, events = []\<rparr>)))
   \<and> ''y'' \<notin> fst ` set (exportsProps (snd (module_imports (\<lambda>ev n u. None) [''./a.js'', ''./b.js'']
      [(''./a.js'', \<lparr>instance_execute = None,
                      instance_notifiers = [(''x'', 10), (''y'', 11), (''default'', 12)]\<rparr>),
       (''./b.js'', \<lparr>instance_execute = None, instance_notifiers = [(''y'', 20), (''z'', 21)]\<rparr>)]
      [(''./a.js'', [(''x'', [100])]), (''./b.js'', [])]
      \<lparr>notifiers = [(''own'', 1), (''*'', 3)], exportsProps = [(''own'', BindingGet ''own'')],
       proxiedExports = [], frozen = False, activate_called = False, events = []\<rparr>)))
   \<and> map_of (notifiers (snd (module_imports (\<lambda>ev n u. None) [''./a.js'', ''./b.js'']
      [(''./a.js'', \<lparr>instance_execute = None,
                      instance_notifiers = [(''x'', 10), (''y'', 11), (''default'', 12)]\<rparr>),
       (''./b.js'', \<lparr>instance_execute = None, instance_notifiers = [(''y'', 20), (''z'', 21)]\<rparr>)]
      [(''./a.js'', [(''x'', [100])]), (''./b.js'', [])]
      \<lparr>notifiers = [(''own'', 1), (''*'', 3)], exportsProps = [(''own'', BindingGet ''own'')],
       proxiedExports = [], frozen = False, activate_called = False, events = []\<rparr>))) ''default'' = None"
  using export_star_ambiguity
    [where ?s1.0 = "''./a.js''" and ?s2.0 = "''./b.js''" and ?ups1.0 = "[(''x'', [100])]"
       and ?ups2.0 = "[]" and n = "''y''" and exportAlls = "[''./a.js'', ''./b.js'']"
       and ?i1.0 = "\<lparr>instance_execute = None,
                      instance_notifiers = [(''x'', 10), (''y'', 11), (''default'', 12)]\<rparr>"
       and ?i2.0 = "\<lparr>instance_execute = None, instance_notifiers = [(''y'', 20), (''z'', 21)]\<rparr>"
       and nb = "\<lambda>ev n u. None"
       and importedInstances =
         "[(''./a.js'', \<lparr>instance_execute = None,
                          instance_notifiers = [(''x'', 10), (''y'', 11), (''default'', 12)]\<rparr>),
           (''./b.js'', \<lparr>instance_execute = None, instance_notifiers = [(''y'', 20), (''z'', 21)]\<rparr>)]"
       and updateRecord = "[(''./a.js'', [(''x'', [100])]), (''./b.js'', [])]"
       and t = "\<lparr>notifiers = [(''own'', 1), (''*'', 3)], exportsProps = [(''own'', BindingGet ''own'')],
                 proxiedExports = [], frozen = False, activate_called = False, events = []\<rparr>"]
  by simp

subsection \<open>Missing exports\<close>











section \<open>Properties of the Compartment constructor\<close>

lemma recognized_iff: "recognized al v = (\<exists>i a. v = JObj i \<and> al i = Some a)"
  by (cases v) (auto simp: recognized_def)

lemma validate_moduleMap_find:
  "validate_moduleMap quote al m =
     (case find (\<lambda>p. \<not> recognized al (snd p)) m of
        None \<Rightarrow> None
      | Some (specifier, v) \<Rightarrow>
          Some (if typeof v = ''string'' then cannot_map_string quote specifier v
                else cannot_map_unknown quote specifier))"
proof (induction m)
  case Nil
  then show ?case by simp
next
  case (Cons p m)
  obtain s v where p: "p = (s, v)" by (cases p)
  show ?case
    unfolding p using Cons.IH by (auto simp: recognized_def)
qed

lemma validate_moduleMap_passes:
  "validate_moduleMap quote al m = None \<longleftrightarrow> (\<forall>p\<in>set m. recognized al (snd p))"
proof (induction m)
  case Nil
  then show ?case by simp
next
  case (Cons p m)
  obtain s v where p: "p = (s, v)" by (cases p)
  show ?case
    unfolding p using Cons.IH
    by (cases "typeof v = ''string''"; cases "aliases_get al v") (simp_all add: recognized_def)
qed

text \<open>
  Claim C6, as amended. The constructor, called with \<^verbatim>\<open>new\<close>, walks the entries of the
  module map in property order and fails at the first entry whose value is a string or has
  no entry in the module-aliases registry: with a TypeError if that value is a string, with a
  ReferenceError otherwise. Entries after it are not looked at. A compartment is only
  constructed when every value of the module map is an exports proxy that the registry
  knows. The same holds for the constructor of part_003.
\<close>

theorem module_map_validation:
  "(find (\<lambda>p. \<not> recognized moduleAliases (snd p)) m = Some (specifier, v) \<longrightarrow>
      Compartment quote valid moduleAliases True endowments (Some m) options =
        Inl (if typeof v = ''string''
             then TypeError (''Cannot map module '' @ quote specifier @ '' to '' @
                             quote (string_of v) @ '' in parent compartment'')
             else ReferenceError (''Cannot map module '' @ quote specifier @
                                  '' because it has no known compartment in this realm''))
      \<and> Compartment_part_003 valid moduleAliases endowments (Some m) options =
        Inl (if typeof v = ''string''
             then TypeError (''Cannot map module '' @ q specifier @ '' to '' @
                             q (string_of v) @ '' in parent compartment'')
             else ReferenceError (''Cannot map module '' @ q specifier @
                                  '' because it has no known compartment in this realm'')))
   \<and> (Compartment quote valid moduleAliases new_target endowments (Some m) options = Inr cf \<longrightarrow>
        (\<forall>p\<in>set m. \<exists>i a. snd p = JObj i \<and> moduleAliases i = Some a))
   \<and> (Compartment_part_003 valid moduleAliases endowments (Some m) options = Inr cf \<longrightarrow>
        (\<forall>p\<in>set m. \<exists>i a. snd p = JObj i \<and> moduleAliases i = Some a))"
proof -
  have found: "validate_moduleMap quote' moduleAliases m =
      Some (if typeof v = ''string'' then cannot_map_string quote' specifier v
            else cannot_map_unknown quote' specifier)"
    if "find (\<lambda>p. \<not> recognized moduleAliases (snd p)) m = Some (specifier, v)" for quote'
    using that by (simp add: validate_moduleMap_find)
  have made: "\<forall>p\<in>set m. \<exists>i a. snd p = JObj i \<and> moduleAliases i = Some a"
    if "validate_moduleMap quote' moduleAliases m = None" for quote'
    using that by (simp add: validate_moduleMap_passes recognized_iff)
  have 1: "validate_moduleMap quote moduleAliases m = None"
    if "Compartment quote valid moduleAliases new_target endowments (Some m) options = Inr cf"
    using that by (auto simp: Compartment_def split: if_splits option.splits)
  have 2: "validate_moduleMap q moduleAliases m = None"
    if "Compartment_part_003 valid moduleAliases endowments (Some m) options = Inr cf"
    using that by (auto simp: Compartment_part_003_def split: if_splits option.splits)
  have 3: "Compartment quote valid moduleAliases True endowments (Some m) options =
        Inl (if typeof v = ''string''
             then TypeError (''Cannot map module '' @ quote specifier @ '' to '' @
                             quote (string_of v) @ '' in parent compartment'')
             else ReferenceError (''Cannot map module '' @ quote specifier @
                                  '' because it has no known compartment in this realm''))"
    if "find (\<lambda>p. \<not> recognized moduleAliases (snd p)) m = Some (specifier, v)"
    using found [OF that, of quote]
    by (simp add: Compartment_def cannot_map_string_def cannot_map_unknown_def)
  have 4: "Compartment_part_003 valid moduleAliases endowments (Some m) options =
        Inl (if typeof v = ''string''
             then TypeError (''Cannot map module '' @ q specifier @ '' to '' @
                             q (string_of v) @ '' in parent compartment'')
             else ReferenceError (''Cannot map module '' @ q specifier @
                                  '' because it has no known compartment in this realm''))"
    if "find (\<lambda>p. \<not> recognized moduleAliases (snd p)) m = Some (specifier, v)"
    using found [OF that, of q]
    by (simp add: Compartment_part_003_def cannot_map_string_def cannot_map_unknown_def)
  show ?thesis
    using 3 4 made [OF 1] made [OF 2] by blast
qed

theorem module_map_validation_witness:
  "Compartment q (\<lambda>s. True) [1 \<mapsto> (0, ''./m.js'')] True []
     (Some [(''ok'', JObj 1), (''bad'', JStr ''x''), (''worse'', JObj 2)])
     \<lparr>opt_name = ''c'', opt_transforms = [], opt_shimTransforms = [], opt_globalLexicals = [],
      opt_resolveHook = Undefined, opt_importHook = Undefined, opt_moduleMapHook = Undefined\<rparr> =
   Inl (TypeError (''Cannot map module '' @ q ''bad'' @ '' to '' @ q ''x'' @ '' in parent compartment''))
   \<and> Compartment q (\<lambda>s. True) [1 \<mapsto> (0, ''./m.js'')] True []
     (Some [(''ok'', JObj 1), (''worse'', JObj 2), (''bad'', JStr ''x'')])
     \<lparr>opt_name = ''c'', opt_transforms = [], opt_shimTransforms = [], opt_globalLexicals = [],
      opt_resolveHook = Undefined, opt_importHook = Undefined, opt_moduleMapHook = Undefined\<rparr> =
   Inl (ReferenceError (''Cannot map module '' @ q ''worse'' @
                        '' because it has no known compartment in this realm''))"
  using module_map_validation
    [where moduleAliases = "[1 \<mapsto> (0, ''./m.js'')]" and quote = q and valid = "\<lambda>s. True"
       and m = "[(''ok'', JObj 1), (''bad'', JStr ''x''), (''worse'', JObj 2)]"
       and specifier = "''bad''" and v = "JStr ''x''" and endowments = "[]"
       and options = "\<lparr>opt_name = ''c'', opt_transforms = [], opt_shimTransforms = [],
          opt_globalLexicals = [], opt_resolveHook = Undefined, opt_importHook = Undefined,
          opt_moduleMapHook = Undefined\<rparr>"]
    module_map_validation
    [where moduleAliases = "[1 \<mapsto> (0, ''./m.js'')]" and quote = q and valid = "\<lambda>s. True"
       and m = "[(''ok'', JObj 1), (''worse'', JObj 2), (''bad'', JStr ''x'')]"
       and specifier = "''worse''" and v = "JObj 2" and endowments = "[]"
       and options = "\<lparr>opt_name = ''c'', opt_transforms = [], opt_shimTransforms = [],
          opt_globalLexicals = [], opt_resolveHook = Undefined, opt_importHook = Undefined,
          opt_moduleMapHook = Undefined\<rparr>"]
  by (simp add: recognized_def)

text \<open>
  Claim C6 as stated fails for a module map that holds an unregistered object before a
  string: the map has a string value, and the constructor throws a ReferenceError, for the
  entry that comes first.
\<close>

theorem module_map_mixed_counterexample:
  "Compartment q (\<lambda>s. True) Map.empty True [] (Some [(''a'', JObj 1), (''b'', JStr ''x'')])
     \<lparr>opt_name = ''c'', opt_transforms = [], opt_shimTransforms = [], opt_globalLexicals = [],
      opt_resolveHook = Undefined, opt_importHook = Undefined, opt_moduleMapHook = Undefined\<rparr> =
   Inl (ReferenceError ''Cannot map module \"a\" because it has no known compartment in this realm'')"
  by (simp add: Compartment_def cannot_map_unknown_def q_def json_char_def)

text \<open>
  Claim C7, as amended. When the constructor is called with \<^verbatim>\<open>new\<close>, the module map passes
  its validation and some own property name of \<^verbatim>\<open>globalLexicals\<close> is not a valid
  identifier name, the constructor throws an \<^verbatim>\<open>Error\<close>, the generic class and no TypeError,
  whose message lists the invalid names, in property order and separated by a comma and a
  space; no compartment is constructed. The constructor of part_003 does the same, and so
  does the one of packages/ses/src/compartment-shim.js, which has no module map to check.
\<close>

theorem invalid_global_lexicals:
  "((\<forall>p\<in>set (case mm of None \<Rightarrow> [] | Some m \<Rightarrow> m). recognized moduleAliases (snd p)) \<and>
    invalid_names valid options \<noteq> [] \<longrightarrow>
      Compartment quote valid moduleAliases True endowments mm options =
        Inl (Error (''Cannot create compartment with invalid names for global lexicals: '' @
                    join (invalid_names valid options) '', '' @
                    ''; these names would not be lexically mentionable'')))
   \<and> ((\<forall>p\<in>set m. recognized moduleAliases (snd p)) \<and> invalid_names valid options \<noteq> [] \<longrightarrow>
      Compartment_part_003 valid moduleAliases endowments (Some m) options =
        Inl (Error (''Cannot create compartment with invalid names for global lexicals: '' @
                    join (invalid_names valid options) '', '' @
                    ''; these names would not be lexically mentionable'')))
   \<and> (invalid_names valid options \<noteq> [] \<longrightarrow>
      Compartment_shim valid endowments options =
        Inl (Error (''Cannot create compartment with invalid names for global lexicals: '' @
                    join (invalid_names valid options) '', '' @
                    ''; these names would not be lexically mentionable'')))"
proof -
  have ok: "validate_moduleMap quote' moduleAliases xs = None"
    if "\<forall>p\<in>set xs. recognized moduleAliases (snd p)" for quote' xs
    using that by (simp add: validate_moduleMap_passes)
  show ?thesis
    using ok [of "case mm of None \<Rightarrow> [] | Some m \<Rightarrow> m" quote] ok [of m q]
    by (simp add: Compartment_def Compartment_part_003_def Compartment_shim_def invalid_names_def
          invalid_names_error_def Let_def)
qed

theorem invalid_global_lexicals_witness:
  "Compartment q (\<lambda>s. s \<noteq> ''1x'' \<and> s \<noteq> ''a.b'') [1 \<mapsto> (0, ''./m.js'')] True []
     (Some [(''ok'', JObj 1)])
     \<lparr>opt_name = ''c'', opt_transforms = [], opt_shimTransforms = [],
      opt_globalLexicals = [(''1x'', JNum 0), (''fine'', JNum 1), (''a.b'', JNum 2)],
      opt_resolveHook = Undefined, opt_importHook = Undefined, opt_moduleMapHook = Undefined\<rparr> =
   Inl (Error ''Cannot create compartment with invalid names for global lexicals: 1x, a.b; these names would not be lexically mentionable'')
   \<and> Compartment_shim (\<lambda>s. s \<noteq> ''1x'' \<and> s \<noteq> ''a.b'') []
     \<lparr>opt_name = ''c'', opt_transforms = [], opt_shimTransforms = [],
      opt_globalLexicals = [(''1x'', JNum 0), (''fine'', JNum 1), (''a.b'', JNum 2)],
      opt_resolveHook = Undefined, opt_importHook = Undefined, opt_moduleMapHook = Undefined\<rparr> =
   Inl (Error ''Cannot create compartment with invalid names for global lexicals: 1x, a.b; these names would not be lexically mentionable'')"
  using invalid_global_lexicals
    [where quote = q and valid = "\<lambda>s. s \<noteq> ''1x'' \<and> s \<noteq> ''a.b''"
       and moduleAliases = "[1 \<mapsto> (0, ''./m.js'')]" and mm = "Some [(''ok'', JObj 1)]"
       and m = "[(''ok'', JObj 1)]" and endowments = "[]"
       and options = "\<lparr>opt_name = ''c'', opt_transforms = [], opt_shimTransforms = [],
          opt_globalLexicals = [(''1x'', JNum 0), (''fine'', JNum 1), (''a.b'', JNum 2)],
          opt_resolveHook = Undefined, opt_importHook = Undefined, opt_moduleMapHook = Undefined\<rparr>"]
  by (simp add: invalid_names_def recognized_def)

text \<open>
  Claim C7 as stated fails twice. With the invalid name \<^verbatim>\<open>1x\<close> alone, what is thrown is an
  \<^verbatim>\<open>Error\<close>, not a type error; and with a string in the module map as well, the module map
  is rejected first, with a TypeError whose message does not list the invalid name.
\<close>

theorem invalid_global_lexicals_counterexample:
  "Compartment q (\<lambda>s. s \<noteq> ''1x'') Map.empty True [] (Some [])
     \<lparr>opt_name = ''c'', opt_transforms = [], opt_shimTransforms = [],
      opt_globalLexicals = [(''1x'', JNum 0)],
      opt_resolveHook = Undefined, opt_importHook = Undefined, opt_moduleMapHook = Undefined\<rparr> =
   Inl (Error ''Cannot create compartment with invalid names for global lexicals: 1x; these names would not be lexically mentionable'')
   \<and> Compartment q (\<lambda>s. s \<noteq> ''1x'') Map.empty True [] (Some [(''m'', JStr ''x'')])
     \<lparr>opt_name = ''c'', opt_transforms = [], opt_shimTransforms = [],
      opt_globalLexicals = [(''1x'', JNum 0)],
      opt_resolveHook = Undefined, opt_importHook = Undefined, opt_moduleMapHook = Undefined\<rparr> =
   Inl (TypeError ''Cannot map module \"m\" to \"x\" in parent compartment'')"
  by (simp add: Compartment_def invalid_names_error_def cannot_map_string_def q_def json_char_def)

section \<open>Properties of the module methods\<close>

lemma async_import_unfold:
  "assertModuleHooks cf = None \<Longrightarrow>
   compartment_import sys cf w (JStr S) =
     (case module_load sys w S of
        (Fulfilled u, w1) \<Rightarrow>
          (case compartment_importNow sys cf w1 (JStr S) of
             (Inl e, w2) \<Rightarrow> (Rejected e, w2)
           | (Inr ns, w2) \<Rightarrow> (Fulfilled \<lparr>namespace = ns\<rparr>, w2))
      | (Rejected e, w1) \<Rightarrow> (Rejected e, w1)
      | (Pending, w1) \<Rightarrow> (Pending, w1))"
  by (simp add: compartment_import_def async_def promise_then_def
        split: prod.splits promise.splits sum.splits)

lemma async_load_unfold:
  "assertModuleHooks cf = None \<Longrightarrow> compartment_load sys cf w (JStr S) = module_load sys w S"
  by (simp add: compartment_load_def async_def split: prod.splits)

lemma import_without_hooks:
  "assertModuleHooks cf = Some e \<Longrightarrow>
   compartment_import sys cf w (JStr S) = (Rejected e, w) \<and>
   compartment_load sys cf w (JStr S) = (Rejected e, w)"
  by (simp add: compartment_import_def compartment_load_def async_def)

text \<open>
  Claim C8. For a string specifier \<open>S\<close>, \<^verbatim>\<open>import(S)\<close> is \<^verbatim>\<open>load(S)\<close> followed by
  \<^verbatim>\<open>importNow(S)\<close>: its promise settles exactly as the specification's composition does.
  It rejects with the error \<^verbatim>\<open>load(S)\<close> rejects with; and when \<^verbatim>\<open>load(S)\<close> fulfils, it
  fulfils with the box whose \<^verbatim>\<open>namespace\<close> is the value \<^verbatim>\<open>importNow(S)\<close> returns then,
  which is the \<^verbatim>\<open>exportsProxy\<close> of the instance the linker gives for \<open>S\<close>, after its
  \<^verbatim>\<open>execute()\<close> has returned.
\<close>

theorem import_is_load_then_importNow:
  "compartment_import sys cf w (JStr S) = load_then_importNow sys cf w S
   \<and> (compartment_load sys cf w (JStr S) = (Rejected e, w1) \<longrightarrow>
        compartment_import sys cf w (JStr S) = (Rejected e, w1))
   \<and> (compartment_load sys cf w (JStr S) = (Fulfilled (), w1) \<and>
      compartment_importNow sys cf w1 (JStr S) = (Inr proxy, w2) \<longrightarrow>
        compartment_import sys cf w (JStr S) = (Fulfilled \<lparr>namespace = proxy\<rparr>, w2))
   \<and> (compartment_load sys cf w (JStr S) = (Fulfilled (), w1) \<and>
      module_link sys w1 S = (Inr moduleInstance, w3) \<and>
      instance_run sys w3 moduleInstance = (Inr (), w4) \<longrightarrow>
        compartment_import sys cf w (JStr S) =
          (Fulfilled \<lparr>namespace = exportsProxy sys moduleInstance\<rparr>, w4))"
proof (cases "assertModuleHooks cf")
  case (Some e')
  from import_without_hooks [OF Some, of sys w S] show ?thesis
    by (auto simp: load_then_importNow_def)
next
  case None
  have eq: "compartment_import sys cf w (JStr S) = load_then_importNow sys cf w S"
    by (simp add: async_import_unfold [OF None] async_load_unfold [OF None] load_then_importNow_def
          split: prod.splits promise.splits sum.splits)
  have now: "compartment_importNow sys cf w1 (JStr S) = (Inr (exportsProxy sys moduleInstance), w4)"
    if "module_link sys w1 S = (Inr moduleInstance, w3)"
      "instance_run sys w3 moduleInstance = (Inr (), w4)"
    using that None by (simp add: compartment_importNow_def)
  show ?thesis
    unfolding eq using now
    by (auto simp: load_then_importNow_def)
qed

theorem import_is_load_then_importNow_witness:
  "compartment_import
     \<lparr>module_load = (\<lambda>w s. (Fulfilled (), s # w)),
      module_link = (\<lambda>w s. (Inr (5 :: nat), w)),
      instance_run = (\<lambda>w i. (Inr (), ''executed'' # w)),
      exportsProxy = (\<lambda>i. JObj i)\<rparr>
     (new_fields [] None
        \<lparr>opt_name = ''c'', opt_transforms = [], opt_shimTransforms = [], opt_globalLexicals = [],
         opt_resolveHook = JFun 1, opt_importHook = JFun 2, opt_moduleMapHook = Undefined\<rparr>)
     [] (JStr ''./main.js'') =
   (Fulfilled \<lparr>namespace = JObj 5\<rparr>, [''executed'', ''./main.js''])
   \<and> compartment_import
     \<lparr>module_load = (\<lambda>w s. (Rejected (Error ''no such module''), s # w)),
      module_link = (\<lambda>w s. (Inr (5 :: nat), w)),
      instance_run = (\<lambda>w i. (Inr (), ''executed'' # w)),
      exportsProxy = (\<lambda>i. JObj i)\<rparr>
     (new_fields [] None
        \<lparr>opt_name = ''c'', opt_transforms = [], opt_shimTransforms = [], opt_globalLexicals = [],
         opt_resolveHook = JFun 1, opt_importHook = JFun 2, opt_moduleMapHook = Undefined\<rparr>)
     [] (JStr ''./main.js'') =
   (Rejected (Error ''no such module''), [''./main.js''])"
  using import_is_load_then_importNow
    [where sys = "\<lparr>module_load = (\<lambda>w s. (Fulfilled (), s # w)),
                   module_link = (\<lambda>w s. (Inr (5 :: nat), w)),
                   instance_run = (\<lambda>w i. (Inr (), ''executed'' # w)),
                   exportsProxy = (\<lambda>i. JObj i)\<rparr>"
       and cf = "new_fields [] None
        \<lparr>opt_name = ''c'', opt_transforms = [], opt_shimTransforms = [], opt_globalLexicals = [],
         opt_resolveHook = JFun 1, opt_importHook = JFun 2, opt_moduleMapHook = Undefined\<rparr>"
       and w = "[]" and S = "''./main.js''" and ?w1.0 = "[''./main.js'']"
       and ?w2.0 = "[''executed'', ''./main.js'']" and proxy = "JObj 5"
       and ?w3.0 = "[''./main.js'']" and ?w4.0 = "[''executed'', ''./main.js'']"
       and moduleInstance = 5, THEN conjunct2]
    import_is_load_then_importNow
    [where sys = "\<lparr>module_load = (\<lambda>w s. (Rejected (Error ''no such module''), s # w)),
                   module_link = (\<lambda>w s. (Inr (5 :: nat), w)),
                   instance_run = (\<lambda>w i. (Inr (), ''executed'' # w)),
                   exportsProxy = (\<lambda>i. JObj i)\<rparr>"
       and cf = "new_fields [] None
        \<lparr>opt_name = ''c'', opt_transforms = [], opt_shimTransforms = [], opt_globalLexicals = [],
         opt_resolveHook = JFun 1, opt_importHook = JFun 2, opt_moduleMapHook = Undefined\<rparr>"
       and w = "[]" and S = "''./main.js''" and ?w1.0 = "[''./main.js'']"
       and e = "Error ''no such module''", THEN conjunct2]
  by (simp add: compartment_load_def compartment_importNow_def async_def assertModuleHooks_def
        new_fields_def)

end
